theory Spec2Isabelle
  imports Main "HOL-Library.Word" "HOL-Library.Multiset"
begin

unbundle bit_operations_syntax

section \<open>Output descriptors of cfd-core: a shallow embedding of cfdcore\_descriptor.cpp\<close>

text \<open>
  The development follows \<^verbatim>\<open>src/src/cfdcore_descriptor.cpp\<close>. Every exception of the
  source is a value \<open>Inl e\<close> of the result type; the constructor of \<open>e\<close> names the message
  of the \<^verbatim>\<open>CfdException\<close> (they all carry \<^verbatim>\<open>kCfdIllegalArgumentError\<close>).
\<close>

subsection \<open>Errors\<close>

datatype error =
    MultipleSharpSymbols          \<comment> \<open>"Multiple '#' symbols."\<close>
  | IllegalChecksumData           \<comment> \<open>"Illegal checksum data."\<close>
  | ChildNodeEmpty                \<comment> \<open>"Failed to child node empty."\<close>
  | Expected8CharacterChecksum    \<comment> \<open>"Expected 8 character checksum."\<close>
  | InvalidCharactersInPayload    \<comment> \<open>"Invalid characters in payload."\<close>
  | UnmatchChecksum               \<comment> \<open>"Unmatch checksum."\<close>
  | WildcardNotAtEnd              \<comment> \<open>"Failed to extkey path. A '*' can only be specified at the end."\<close>
  | HardenedIsExtPrivkeyOnly      \<comment> \<open>"Failed to extPubkey. hardened is extPrivkey only."\<close>
  | TaprootXonlyPubkeyOnly        \<comment> \<open>"Failed to taproot key. taproot is xonly pubkey only."\<close>
  | PrivkeyInvalid                \<comment> \<open>"privkey invalid."\<close>
  | NameFieldEmpty                \<comment> \<open>"Failed to analyze descriptor." (name field empty)\<close>
  | ParseMiniscriptFail           \<comment> \<open>"Failed to analyze descriptor. parse miniscript fail."\<close>
  | ScriptNameNotFound            \<comment> \<open>"Failed to analyze descriptor." (script's name not found)\<close>
  | TopOnly                       \<comment> \<open>"Failed to analyse descriptor. The target can only exist at the top."\<close>
  | ChildNodeNum                  \<comment> \<open>"Failed to child node num."\<close>
  | MultisigTaprootUnsupported    \<comment> \<open>"Failed to multisig. taproot is unsupported."\<close>
  | MultisigNodeLow               \<comment> \<open>"Failed to multisig node low."\<close>
  | MultisigRequireNum            \<comment> \<open>"Failed to multisig require num."\<close>
  | MultisigPubkeyNum             \<comment> \<open>"Failed to multisig pubkey num."\<close>
  | ScriptSizeOver                \<comment> \<open>"Failed to script size over."\<close>
  | MultisigUncompressPubkey      \<comment> \<open>"Failed to multisig uncompress pubkey. wsh is compress only."\<close>
  | TaprootNodeNum                \<comment> \<open>"Failed to taproot node num."\<close>
  | TaprootUncompressPubkey       \<comment> \<open>"Failed to taproot uncompress pubkey. taproot is compress only."\<close>
  | WshParent                     \<comment> \<open>"Failed to wsh parent. only top or sh."\<close>
  | WpkhParent                    \<comment> \<open>"Failed to wpkh parent. only top or sh."\<close>
  | ChildIsScriptOnly             \<comment> \<open>"Failed to check script type. child is script only."\<close>
  | ChildIsKeyOnly                \<comment> \<open>"Failed to check key-hash type. child is key only."\<close>
  | TaprootPkhUnsupported         \<comment> \<open>"Failed to taproot. pkh is unsupported."\<close>
  | UsingUncompressedPubkey       \<comment> \<open>"Failed to unsing uncompressed pubkey."\<close>
  | TaprootEmptyScript            \<comment> \<open>"Failed to taproot. empty script."\<close>
  | GenerateMiniscriptFromHdkey   \<comment> \<open>"Failed to generate miniscript from hdkey."\<close>
  | MiniscriptSingleChild         \<comment> \<open>"Failed to invalid argument. miniscript is single child."\<close>
  | ArgumentNumberOnly            \<comment> \<open>"Failed to invalid argument. number only."\<close>
  | ParseMiniscript               \<comment> \<open>"Failed to parse miniscript."\<close>
  | PkhBip32Format                \<comment> \<open>"invalid bip32 format. pkh is not using bip49 or bip84."\<close>
  | Bip49ShWpkhOnly               \<comment> \<open>"invalid bip32 format. bip49 is using sh-wpkh only."\<close>
  | Bip84WpkhOnly                 \<comment> \<open>"invalid bip32 format. bip84 is using wpkh only."\<close>
  | PkBip32Format                 \<comment> \<open>"invalid bip32 format. pk is not using bip49 or bip84."\<close>
  | GeneratePubkeyFromHdkey       \<comment> \<open>"Failed to generate pubkey from hdkey."\<close>
  | InvalidPubkeyData             \<comment> \<open>"Invalid pubkey data."\<close>
  | EmptyArgument                 \<comment> \<open>"Failed to empty argument. need argument descriptor."\<close>
  | External string               \<comment> \<open>an exception thrown inside a library the file calls\<close>
  | OutOfRange                    \<comment> \<open>an index outside a \<^verbatim>\<open>std::vector\<close> (undefined behaviour)\<close>
  | Diverges                      \<comment> \<open>the call does not return\<close>
  | NestedScriptTree              \<comment> \<open>a script tree inside a tapleaf, see \<open>AnalyzeAll_leaf\<close>\<close>

subsection \<open>The checksum (\<^verbatim>\<open>DescriptorNode::GenerateChecksum\<close>, \<^verbatim>\<open>CheckChecksum\<close>)\<close>

definition kInputCharset :: string where
  "kInputCharset =
     ''0123456789()[],'' @ [CHR 0x27] @ ''/*abcdefgh@:$%{}'' @
     ''IJKLMNOPQRSTUVWXYZ&+-.;<=>?!^_|~'' @
     ''ijklmnopqrstuvwxyzABCDEFGH'' @ [CHR 0x60, CHR ''#'', CHR 0x22, CHR 0x5C, CHR '' '']"

definition kChecksumCharset :: string where
  "kChecksumCharset = ''qpzry9x8gf2tvdw0s3jn54khce6mua7l''"

text \<open>\<^verbatim>\<open>std::string::find(ch)\<close>: the first position of the character, \<open>None\<close> for \<^verbatim>\<open>npos\<close>.\<close>

fun find_char :: "string \<Rightarrow> char \<Rightarrow> nat option" where
  "find_char [] ch = None"
| "find_char (x # xs) ch =
     (if x = ch then Some 0 else map_option Suc (find_char xs ch))"

definition poly_mod :: "64 word \<Rightarrow> nat \<Rightarrow> 64 word" where
  "poly_mod c val =
     (let c0 = (ucast (drop_bit 35 c) :: 8 word);
          c1 = push_bit 5 (c AND 0x7ffffffff) XOR of_nat val;
          c2 = (if c0 AND 1 \<noteq> 0 then c1 XOR 0xf5dee51989 else c1);
          c3 = (if c0 AND 2 \<noteq> 0 then c2 XOR 0xa9fdca3312 else c2);
          c4 = (if c0 AND 4 \<noteq> 0 then c3 XOR 0x1bab10e32d else c3);
          c5 = (if c0 AND 8 \<noteq> 0 then c4 XOR 0x3706b1677a else c4);
          c6 = (if c0 AND 16 \<noteq> 0 then c5 XOR 0x644d626ffd else c5)
      in c6)"

text \<open>The loop over the characters of the descriptor, with the locals \<open>c\<close>, \<open>cls\<close> and
  \<open>clscount\<close>; \<open>None\<close> is the early \<^verbatim>\<open>return ""\<close>.\<close>

fun checksum_loop :: "string \<Rightarrow> 64 word \<Rightarrow> nat \<Rightarrow> nat \<Rightarrow> (64 word \<times> nat \<times> nat) option" where
  "checksum_loop [] c cls clscount = Some (c, cls, clscount)"
| "checksum_loop (ch # rest) c cls clscount =
     (case find_char kInputCharset ch of
        None \<Rightarrow> None
      | Some pos \<Rightarrow>
          (let c1 = poly_mod c (pos mod 32);
               cls1 = cls * 3 + pos div 32
           in if clscount + 1 = 3
              then checksum_loop rest (poly_mod c1 cls1) 0 0
              else checksum_loop rest c1 cls1 (clscount + 1)))"

definition checksum_symbol :: "64 word \<Rightarrow> nat \<Rightarrow> char" where
  "checksum_symbol c j = kChecksumCharset ! unat (drop_bit (5 * (7 - j)) c AND 31)"

definition GenerateChecksum :: "string \<Rightarrow> string" where
  "GenerateChecksum descriptor =
     (case checksum_loop descriptor 1 0 0 of
        None \<Rightarrow> ''''
      | Some (c, cls, clscount) \<Rightarrow>
          (let c1 = (if clscount > 0 then poly_mod c cls else c);
               c2 = ((\<lambda>x. poly_mod x 0) ^^ 8) c1;
               c3 = c2 XOR 1
           in map (checksum_symbol c3) [0..<8]))"

text \<open>\<^verbatim>\<open>CheckChecksum\<close> reads the member \<open>checksum_\<close>; it is the first argument here.\<close>

definition CheckChecksum :: "string \<Rightarrow> string \<Rightarrow> error + unit" where
  "CheckChecksum checksum descriptor =
     (if length checksum \<noteq> 8 then Inl Expected8CharacterChecksum
      else let computed = GenerateChecksum descriptor
           in if computed = [] then Inl InvalidCharactersInPayload
              else if checksum \<noteq> computed then Inl UnmatchChecksum
              else Inr ())"

subsection \<open>Nodes\<close>

datatype DescriptorNodeType =
  kDescriptorTypeNull | kDescriptorTypeScript | kDescriptorTypeKey | kDescriptorTypeNumber

datatype DescriptorScriptType =
    kDescriptorScriptNull | kDescriptorScriptSh | kDescriptorScriptWsh | kDescriptorScriptPk
  | kDescriptorScriptPkh | kDescriptorScriptWpkh | kDescriptorScriptCombo
  | kDescriptorScriptMulti | kDescriptorScriptSortedMulti | kDescriptorScriptAddr
  | kDescriptorScriptRaw | kDescriptorScriptMiniscript | kDescriptorScriptTaproot

datatype DescriptorKeyType =
    kDescriptorKeyNull | kDescriptorKeyPublic | kDescriptorKeyBip32
  | kDescriptorKeyBip32Priv | kDescriptorKeySchnorr

text \<open>
  The members of \<^verbatim>\<open>DescriptorNode\<close>. The members that hold nodes (\<open>child_node_\<close>, a vector,
  and \<open>tree_node_\<close>, a \<^verbatim>\<open>std::map\<close> from the text of a tapleaf to its node) are the
  arguments of the constructor \<open>Node\<close>; the others are the record \<open>node_info\<close>. The address
  prefixes and the network type are the same in every node of a tree and belong to the
  libraries, so they are not members here.
\<close>

record node_info =
  name :: string
  val :: string
  key_info :: string
  is_uncompressed_key :: bool
  base_extkey :: string
  tweak_sum :: string
  number :: "32 word"
  checksum :: string
  depth :: "32 word"
  need_arg_num :: "32 word"
  node_type :: DescriptorNodeType
  script_type :: DescriptorScriptType
  key_type :: DescriptorKeyType
  parent_kind :: string

datatype node = Node (info: node_info) (child_node: "node list") (tree_node: "(string \<times> node) list")

text \<open>A node as the constructor \<^verbatim>\<open>DescriptorNode(network_parameters, network_type)\<close>
  leaves it: empty strings and containers, zero counters, the null types.\<close>

definition new_info :: node_info where
  "new_info = \<lparr> name = [], val = [], key_info = [], is_uncompressed_key = False,
      base_extkey = [], tweak_sum = [], number = 0, checksum = [], depth = 0,
      need_arg_num = 0, node_type = kDescriptorTypeNull,
      script_type = kDescriptorScriptNull, key_type = kDescriptorKeyNull,
      parent_kind = [] \<rparr>"

definition new_node :: node where
  "new_node = Node new_info [] []"

definition upd :: "(node_info \<Rightarrow> node_info) \<Rightarrow> node \<Rightarrow> node" where
  "upd f n = Node (f (info n)) (child_node n) (tree_node n)"

definition push_child :: "node \<Rightarrow> node \<Rightarrow> node" where
  "push_child c n = Node (info n) (child_node n @ [c]) (tree_node n)"

definition set_children :: "node list \<Rightarrow> node \<Rightarrow> node" where
  "set_children cs n = Node (info n) cs (tree_node n)"

text \<open>The size of a node bounds the sizes of the nodes it holds.\<close>

lemma size_child_le: "c \<in> set cs \<Longrightarrow> size c \<le> size_list size cs"
  by (induction cs) auto

lemma size_upd: "size (upd f c) = size c"
  by (cases c) (simp add: upd_def)

lemma size_map_of_less:
  "map_of t k = Some r \<Longrightarrow> size r < Suc (size_list (size_prod (\<lambda>x. 0) size) t)"
  by (induction t) (auto split: if_splits)

subsection \<open>Strings and loops of the C++ library\<close>

text \<open>\<^verbatim>\<open>s.substr(pos, n)\<close> and \<^verbatim>\<open>s.substr(pos)\<close> for \<open>pos \<le> length s\<close> (beyond that, the
  library throws; where the file calls them the position is within the string).\<close>

definition substr :: "string \<Rightarrow> nat \<Rightarrow> nat \<Rightarrow> string" where
  "substr s pos n = take n (drop pos s)"

definition substr_from :: "string \<Rightarrow> nat \<Rightarrow> string" where
  "substr_from s pos = drop pos s"

text \<open>A loop over a sequence whose body may throw: \<^verbatim>\<open>for (const auto& x : xs) body\<close>.\<close>

fun foldM :: "('a \<Rightarrow> 's \<Rightarrow> error + 's) \<Rightarrow> 'a list \<Rightarrow> 's \<Rightarrow> error + 's" where
  "foldM f [] s = Inr s"
| "foldM f (x # xs) s = (case f x s of Inl e \<Rightarrow> Inl e | Inr s' \<Rightarrow> foldM f xs s')"

lemma foldM_cong [fundef_cong]:
  assumes "xs = ys" "s = t" "\<And>x s. x \<in> set ys \<Longrightarrow> f x s = g x s"
  shows "foldM f xs s = foldM g ys t"
  unfolding assms(1,2) using assms(3)
  by (induction ys arbitrary: t) (auto split: sum.splits)

text \<open>\<^verbatim>\<open>for (idx = 0; idx < n; ++idx) body\<close>, where the body may throw.\<close>

definition for_loop :: "nat \<Rightarrow> (nat \<Rightarrow> 's \<Rightarrow> error + 's) \<Rightarrow> 's \<Rightarrow> error + 's" where
  "for_loop n body s = foldM body [0..<n] s"

lemma for_loop_cong [fundef_cong]:
  assumes "n = m" "s = t" "\<And>i x. i < m \<Longrightarrow> f i x = g i x"
  shows "for_loop n f s = for_loop m g t"
  unfolding for_loop_def using assms
  by (intro foldM_cong) auto

text \<open>\<^verbatim>\<open>atoi\<close> of the C library (glibc, where \<^verbatim>\<open>long\<close> has 64 bits): it is
  \<^verbatim>\<open>(int) strtol(s, NULL, 10)\<close>. \<^verbatim>\<open>strtol\<close> reads white space, an optional sign and
  decimal digits, and gives \<^verbatim>\<open>LONG_MAX\<close> or \<^verbatim>\<open>LONG_MIN\<close> when the value is beyond them; the
  conversion to \<^verbatim>\<open>int\<close> keeps the low 32 bits. The result is stored in the \<^verbatim>\<open>uint32_t\<close>
  member \<open>number_\<close>.\<close>

definition is_space :: "char \<Rightarrow> bool" where
  "is_space ch = (ch \<in> set [CHR '' '', CHR 0x09, CHR 0x0A, CHR 0x0B, CHR 0x0C, CHR 0x0D])"

definition is_digit :: "char \<Rightarrow> bool" where
  "is_digit ch = ((48::nat) \<le> of_char ch \<and> of_char ch \<le> (57::nat))"

definition digit_val :: "char \<Rightarrow> nat" where
  "digit_val ch = of_char ch - 48"

fun digits_value :: "string \<Rightarrow> nat \<Rightarrow> nat" where
  "digits_value [] acc = acc"
| "digits_value (ch # rest) acc =
     (if is_digit ch then digits_value rest (acc * 10 + digit_val ch) else acc)"

definition strtol :: "string \<Rightarrow> int" where
  "strtol s =
     (let v = (case dropWhile is_space s of
                 [] \<Rightarrow> 0
               | ch # rest \<Rightarrow>
                   if ch = CHR ''-'' then - int (digits_value rest 0)
                   else if ch = CHR ''+'' then int (digits_value rest 0)
                   else int (digits_value (ch # rest) 0))
      in if v > 2 ^ 63 - 1 then 2 ^ 63 - 1 else if v < - (2 ^ 63) then - (2 ^ 63) else v)"

definition atoi :: "string \<Rightarrow> int" where
  "atoi s = sint (word_of_int (strtol s) :: 32 word)"

subsection \<open>The structural parser (\<^verbatim>\<open>DescriptorNode::AnalyzeChild\<close>)\<close>

text \<open>The node under construction and the locals of the loop.\<close>

record scan_state =
  this :: node
  is_terminate :: bool
  offset :: nat
  depth_work :: "32 word"
  exist_child_node :: bool
  descriptor_main :: string

text \<open>
  The body of the loop at index \<open>idx\<close>. The first argument stands for the recursive call
  \<^verbatim>\<open>node.AnalyzeChild(value_, depth + 1)\<close> on the fresh node.
\<close>

definition AnalyzeChild_body ::
  "(string \<Rightarrow> 32 word \<Rightarrow> node \<Rightarrow> error + node) \<Rightarrow> string \<Rightarrow> 32 word \<Rightarrow> nat \<Rightarrow> scan_state
     \<Rightarrow> error + scan_state" where
  "AnalyzeChild_body rec descriptor dep idx st =
     (let str = descriptor ! idx; n = this st; nm = name (info n) in
      if str = CHR ''#'' then
        (if is_terminate st then
           (let cs = substr_from descriptor (idx + 1);
                st1 = st\<lparr> offset := idx,
                          this := upd (\<lambda>i. i\<lparr>checksum := cs\<rparr>) n,
                          descriptor_main := substr descriptor 0 idx \<rparr>
            in if CHR ''#'' \<in> set cs then Inl MultipleSharpSymbols else Inr st1)
         else Inl IllegalChecksumData)
      else if str = CHR '','' then
        (if exist_child_node st then Inr st
         else if nm = ''multi'' \<or> nm = ''sortedmulti'' then
           (let v = substr descriptor (offset st) (idx - offset st);
                c0 = upd (\<lambda>i. i\<lparr>val := v\<rparr>) new_node;
                c1 = (if child_node n = []
                      then upd (\<lambda>i. i\<lparr>node_type := kDescriptorTypeNumber,
                                        number := word_of_int (atoi v)\<rparr>) c0
                      else upd (\<lambda>i. i\<lparr>node_type := kDescriptorTypeKey\<rparr>) c0);
                c2 = upd (\<lambda>i. i\<lparr>depth := dep + 1, parent_kind := parent_kind (info n)\<rparr>) c1
            in Inr (st\<lparr> this := push_child c2 n, offset := idx + 1 \<rparr>))
         else if nm = ''tr'' then
           (if child_node n = [] then
              (let v = substr descriptor (offset st) (idx - offset st);
                   c = upd (\<lambda>i. i\<lparr>val := v, node_type := kDescriptorTypeKey, depth := dep + 1,
                                   parent_kind := parent_kind (info n)\<rparr>) new_node
               in Inr (st\<lparr> this := push_child c n, offset := idx + 1 \<rparr>))
            else Inr st)
         else Inr st)
      else if str = CHR '' '' then Inr (st\<lparr> offset := offset st + 1 \<rparr>)
      else if str = CHR ''('' then
        (let st1 = (if depth_work st = dep
                    then st\<lparr> this := upd (\<lambda>i. i\<lparr>name := substr descriptor (offset st) (idx - offset st)\<rparr>) n,
                             offset := idx + 1 \<rparr>
                    else st\<lparr> exist_child_node := True \<rparr>)
         in Inr (st1\<lparr> depth_work := depth_work st + 1 \<rparr>))
      else if str = CHR '')'' then
        (let dw = depth_work st - 1; st0 = st\<lparr> depth_work := dw \<rparr> in
         if dw = dep then
           (let v = substr descriptor (offset st) (idx - offset st);
                n1 = upd (\<lambda>i. i\<lparr>val := v\<rparr>) n;
                st1 = st0\<lparr> this := n1, is_terminate := True, offset := idx + 1 \<rparr>
            in if nm = ''addr'' \<or> nm = ''raw'' then Inr st1
               else if nm = ''tr'' then
                 (let c = upd (\<lambda>i. i\<lparr>node_type := kDescriptorTypeScript, val := v, depth := dep + 1,
                                      parent_kind := parent_kind (info n)\<rparr>) new_node
                  in Inr (st1\<lparr> this := push_child c n1, exist_child_node := False \<rparr>))
               else if exist_child_node st then
                 (case rec v (dep + 1) (upd (\<lambda>i. i\<lparr>node_type := kDescriptorTypeScript\<rparr>) new_node) of
                    Inl e \<Rightarrow> Inl e
                  | Inr c0 \<Rightarrow>
                      (let c = upd (\<lambda>i. i\<lparr>parent_kind := parent_kind (info n)\<rparr>) c0
                       in Inr (st1\<lparr> this := push_child c n1, exist_child_node := False \<rparr>)))
               else
                 (let c = upd (\<lambda>i. i\<lparr>node_type := kDescriptorTypeKey, val := v, depth := dep + 1,
                                      parent_kind := parent_kind (info n)\<rparr>) new_node
                  in Inr (st1\<lparr> this := push_child c n1 \<rparr>)))
         else Inr st0)
      else Inr st)"

lemma AnalyzeChild_body_cong [fundef_cong]:
  assumes "descriptor = descriptor'" "dep = dep'" "idx = idx'" "st = st'"
    and "\<And>v d n. length v \<le> idx' \<Longrightarrow> f v d n = g v d n"
  shows "AnalyzeChild_body f descriptor dep idx st = AnalyzeChild_body g descriptor' dep' idx' st'"
proof -
  have "length (substr descriptor' (offset st') (idx' - offset st')) \<le> idx'"
    by (simp add: substr_def)
  then have "f (substr descriptor' (offset st') (idx' - offset st')) d n
           = g (substr descriptor' (offset st') (idx' - offset st')) d n" for d n
    by (rule assms(5))
  then show ?thesis
    unfolding assms(1-4) AnalyzeChild_body_def by (simp add: Let_def)
qed

text \<open>What follows the loop: a named node other than \<open>addr\<close> and \<open>raw\<close> has a child, and a
  checksum section is verified.\<close>

definition AnalyzeChild_finish :: "scan_state \<Rightarrow> error + node" where
  "AnalyzeChild_finish st =
     (let n = this st; nm = name (info n) in
      if \<not> (nm = [] \<or> nm = ''addr'' \<or> nm = ''raw'') \<and> child_node n = [] then Inl ChildNodeEmpty
      else if descriptor_main st \<noteq> [] then
        (case CheckChecksum (checksum (info n)) (descriptor_main st) of
           Inl e \<Rightarrow> Inl e | Inr _ \<Rightarrow> Inr n)
      else Inr n)"

definition init_scan :: "32 word \<Rightarrow> node \<Rightarrow> scan_state" where
  "init_scan dep n = \<lparr> this = upd (\<lambda>i. i\<lparr>depth := dep\<rparr>) n, is_terminate = False, offset = 0,
      depth_work = dep, exist_child_node = False, descriptor_main = [] \<rparr>"

function AnalyzeChild :: "string \<Rightarrow> 32 word \<Rightarrow> node \<Rightarrow> error + node" where
  "AnalyzeChild descriptor dep n =
     (case for_loop (length descriptor) (AnalyzeChild_body AnalyzeChild descriptor dep)
             (init_scan dep n) of
        Inl e \<Rightarrow> Inl e
      | Inr st \<Rightarrow> AnalyzeChild_finish st)"
  by pat_completeness auto
termination
  by (relation "measure (\<lambda>(descriptor, dep, n). length descriptor)") auto

subsection \<open>Values of the libraries\<close>

text \<open>
  Keys, scripts, addresses, taproot branches and the miniscript compiler belong to other
  files and libraries. A value of one of their classes is the record of what this file
  reads from it; what they compute is a field of the record \<open>externals\<close>, which every
  function below takes as its first argument. A library function that can throw returns
  an option, and \<open>None\<close> is the exception.
\<close>

type_synonym bytes = "8 word list"

datatype Bip32FormatType = kNormal | kBip49 | kBip84

record ExtPubkey =
  xpub_ToString :: string
  xpub_IsValid :: bool
  xpub_GetPubkey :: bytes
  xpub_GetChildNum :: "32 word"
  xpub_GetFormatType :: Bip32FormatType
  xpub_GetPubTweakSum :: string

record ExtPrivkey =
  xprv_ToString :: string
  xprv_GetExtPubkey :: ExtPubkey
  xprv_GetPubTweakSum :: string

record KeyData =
  kd_GetPubkey :: bytes
  kd_ExtPrivkey :: "ExtPrivkey option"   \<comment> \<open>\<^verbatim>\<open>HasExtPrivkey\<close>, \<^verbatim>\<open>GetExtPrivkey\<close>\<close>
  kd_ExtPubkey :: "ExtPubkey option"     \<comment> \<open>\<^verbatim>\<open>HasExtPubkey\<close>, \<^verbatim>\<open>GetExtPubkey\<close>\<close>

datatype ScriptOperator = OP_CHECKSIG | OP_CHECKMULTISIG

datatype ScriptElement = Op ScriptOperator | Data bytes | Num int | Other bytes

type_synonym Script = "ScriptElement list"

record TapBranch =
  tb_ToString :: string
  tb_HasTapLeaf :: bool

datatype miniscript_flags = NO_FLAGS | WALLY_MINISCRIPT_WITNESS_SCRIPT | WALLY_MINISCRIPT_TAPSCRIPT

record externals =
  kArgumentBaseExtkey :: string
  Split :: "string \<Rightarrow> string \<Rightarrow> string list"
  ByteData_hex :: "string \<Rightarrow> bytes option"
  GetHex :: "bytes \<Rightarrow> string"
  Pubkey_IsValid :: "bytes \<Rightarrow> bool"
  Pubkey_IsCompress :: "bytes \<Rightarrow> bool"
  Pubkey_IsLarge :: "bytes \<Rightarrow> bytes \<Rightarrow> bool"
  Pubkey_hex :: "string \<Rightarrow> bytes option"
  SchnorrPubkey_bytes :: "bytes \<Rightarrow> bytes option"
  SchnorrPubkey_hex :: "string \<Rightarrow> bytes option"
  SchnorrPubkey_FromPubkey :: "bytes \<Rightarrow> bytes"
  SchnorrPubkey_CreatePubkey :: "bytes \<Rightarrow> bytes"
  Privkey_HasWif :: "string \<Rightarrow> (nat \<times> bool) option"
  Privkey_FromWif :: "string \<Rightarrow> nat \<Rightarrow> bool \<Rightarrow> bytes option"
  Privkey_IsValid :: "bytes \<Rightarrow> bool"
  Privkey_GeneratePubkey :: "bytes \<Rightarrow> bool \<Rightarrow> bytes"
  ExtPubkey_parse :: "string \<Rightarrow> ExtPubkey option"
  ExtPrivkey_parse :: "string \<Rightarrow> ExtPrivkey option"
  ExtPubkey_new :: "string \<Rightarrow> string \<Rightarrow> ExtPubkey option"
  ExtPubkey_DerivePubkey :: "ExtPubkey \<Rightarrow> string \<Rightarrow> ExtPubkey option"
  ExtPrivkey_new :: "string \<Rightarrow> string \<Rightarrow> ExtPrivkey option"
  ExtPrivkey_DerivePrivkey :: "ExtPrivkey \<Rightarrow> string \<Rightarrow> ExtPrivkey option"
  KeyData_new :: "string \<Rightarrow> int \<Rightarrow> bool \<Rightarrow> KeyData option"
  Script_hex :: "string \<Rightarrow> Script option"
  Script_bytes :: "bytes \<Rightarrow> Script"
  Script_GetHex :: "Script \<Rightarrow> string"
  Script_GetDataSize :: "Script \<Rightarrow> nat"
  Address_GetLockingScript :: "string \<Rightarrow> Script option"
  CreateMultisigRedeemScript_throws :: "32 word \<Rightarrow> bytes list \<Rightarrow> bool \<Rightarrow> bool"
  CreateP2wshLockingScript :: "Script \<Rightarrow> Script"
  CreateP2shLockingScript :: "Script \<Rightarrow> Script"
  CreateP2wpkhLockingScript :: "bytes \<Rightarrow> Script"
  CreateP2pkhLockingScript :: "bytes \<Rightarrow> Script"
  TapBranch_empty :: TapBranch
  TapBranch_FromString :: "string \<Rightarrow> TapBranch option"
  TapBranch_ChangeTapLeaf :: "TapBranch \<Rightarrow> Script \<Rightarrow> TapBranch"
  CreateTapScriptControl_tree :: "bytes \<Rightarrow> TapBranch \<Rightarrow> Script option"
  CreateTapScriptControl_branch :: "bytes \<Rightarrow> TapBranch \<Rightarrow> Script option"
  wally_descriptor_parse_miniscript ::
    "string \<Rightarrow> 32 word \<Rightarrow> miniscript_flags \<Rightarrow> nat \<Rightarrow> (bytes \<times> nat) option"
  kMaxScriptSize :: nat

text \<open>
  The fields, in the order above: the sentinel argument of the header;
  \<^verbatim>\<open>StringUtil::Split\<close>; \<^verbatim>\<open>ByteData(hex)\<close>, which throws "hex to byte convert error.";
  \<^verbatim>\<open>GetHex\<close> of byte data and keys; \<^verbatim>\<open>Pubkey::IsValid\<close>, \<^verbatim>\<open>IsCompress\<close>, \<^verbatim>\<open>IsLarge\<close>
  and \<^verbatim>\<open>Pubkey(hex)\<close>, a public key being its bytes; \<^verbatim>\<open>SchnorrPubkey(bytes)\<close>,
  \<^verbatim>\<open>SchnorrPubkey(hex)\<close>, \<^verbatim>\<open>FromPubkey\<close>, \<^verbatim>\<open>CreatePubkey\<close>; \<^verbatim>\<open>Privkey::HasWif\<close> with its two
  output parameters, \<^verbatim>\<open>FromWif\<close>, \<^verbatim>\<open>IsValid\<close>, \<^verbatim>\<open>GeneratePubkey\<close>; the constructors of the
  extended keys from a string, then from a string and the hexadecimal tweak sum (empty
  for none), and their derivations along a path; \<^verbatim>\<open>KeyData(text, child_num, has_schnorr_pubkey)\<close>;
  \<^verbatim>\<open>Script(hex)\<close>, \<^verbatim>\<open>Script(bytes)\<close>, \<^verbatim>\<open>GetHex\<close> and the size of the data of a script; the
  locking script of \<^verbatim>\<open>Address(text, prefixes)\<close>; when \<^verbatim>\<open>CreateMultisigRedeemScript\<close>
  throws; the other builders of \<^verbatim>\<open>ScriptUtil\<close>; \<^verbatim>\<open>TapBranch(network_type)\<close>,
  \<^verbatim>\<open>TapBranch::FromString\<close>, \<^verbatim>\<open>ChangeTapLeaf\<close>; \<^verbatim>\<open>TaprootUtil::CreateTapScriptControl\<close> on
  a \<^verbatim>\<open>TaprootScriptTree\<close> built from the branch and on the branch itself, giving the
  locking script; the miniscript compiler, giving the buffer and the number of bytes
  written when it returns \<^verbatim>\<open>WALLY_OK\<close>; \<^verbatim>\<open>Script::kMaxScriptSize\<close>.
\<close>

definition lib :: "string \<Rightarrow> 'a option \<Rightarrow> error + 'a" where
  "lib what r = (case r of None \<Rightarrow> Inl (External what) | Some v \<Rightarrow> Inr v)"

text \<open>Modelled from the spec: \<^verbatim>\<open>Script::kMaxMultisigPubkeyNum\<close> and
  \<^verbatim>\<open>Script::kMaxRedeemScriptSize\<close> are constants of cfdcore\_script.h, which is not among
  the sources; section 3 of the specification gives 20 public keys inside \<open>wsh\<close> and 520
  bytes.\<close>

definition kMaxMultisigPubkeyNum :: nat where
  "kMaxMultisigPubkeyNum = 20"

definition kMaxRedeemScriptSize :: nat where
  "kMaxRedeemScriptSize = 520"

text \<open>\<^verbatim>\<open>kByteData256Length\<close> of cfdcore\_bytedata.h and \<^verbatim>\<open>SchnorrPubkey::kSchnorrPubkeySize\<close>
  of cfdcore\_schnorrsig.h: 32 bytes.\<close>

definition kByteData256Length :: nat where
  "kByteData256Length = 32"

definition kSchnorrPubkeySize :: nat where
  "kSchnorrPubkeySize = 32"

text \<open>Modelled from the spec: \<^verbatim>\<open>ScriptUtil::CreateMultisigRedeemScript\<close> is in
  cfdcore\_script.cpp, which is not among the sources. Section 4.6 of the specification
  gives its result, \<^verbatim>\<open>OP_k <keys> OP_n OP_CHECKMULTISIG\<close>; when it throws is left to
  the field \<open>CreateMultisigRedeemScript_throws\<close>.\<close>

definition CreateMultisigRedeemScript ::
  "externals \<Rightarrow> 32 word \<Rightarrow> bytes list \<Rightarrow> bool \<Rightarrow> error + Script" where
  "CreateMultisigRedeemScript X reqnum pubkeys has_witness =
     (if CreateMultisigRedeemScript_throws X reqnum pubkeys has_witness
      then Inl (External ''CreateMultisigRedeemScript'')
      else Inr ([Num (uint reqnum)] @ map Data pubkeys @
                [Num (int (length pubkeys)), Op OP_CHECKMULTISIG]))"

text \<open>\<^verbatim>\<open>std::sort(first, last, comp)\<close>. The library promises a permutation in which no
  element is before one that \<open>cmp\<close> puts in front of it, nothing more; insertion from
  the right is one such algorithm, and the only result there is when \<open>cmp\<close> is a strict
  linear order.\<close>

fun sort_insert :: "('a \<Rightarrow> 'a \<Rightarrow> bool) \<Rightarrow> 'a \<Rightarrow> 'a list \<Rightarrow> 'a list" where
  "sort_insert cmp x [] = [x]"
| "sort_insert cmp x (y # ys) = (if cmp y x then y # sort_insert cmp x ys else x # y # ys)"

definition std_sort :: "('a \<Rightarrow> 'a \<Rightarrow> bool) \<Rightarrow> 'a list \<Rightarrow> 'a list" where
  "std_sort cmp xs = foldr (sort_insert cmp) xs []"

text \<open>\<^verbatim>\<open>std::stoul(str, &end_pos, 10)\<close>: white space, an optional sign, decimal digits.
  It throws \<^verbatim>\<open>std::invalid_argument\<close> when there is no digit and \<^verbatim>\<open>std::out_of_range\<close>
  when the digits are a number above \<^verbatim>\<open>ULONG_MAX\<close> (64 bits); both are \<open>None\<close> here. With
  the sign \<open>-\<close> the value is negated as an \<^verbatim>\<open>unsigned long\<close>. The result is the value and
  the position after the last digit.\<close>

definition stoul :: "string \<Rightarrow> (nat \<times> nat) option" where
  "stoul s =
     (let ws = takeWhile is_space s; r = dropWhile is_space s;
          sign = (case r of [] \<Rightarrow> [] | ch # _ \<Rightarrow> if ch = CHR ''-'' \<or> ch = CHR ''+'' then [ch] else []);
          r1 = drop (length sign) r;
          ds = takeWhile is_digit r1;
          v = digits_value ds 0
      in if ds = [] then None
         else if v > 2 ^ 64 - 1 then None
         else Some (if sign = ''-'' then (2 ^ 64 - v) mod 2 ^ 64 else v,
                    length ws + length sign + length ds))"

subsection \<open>References (\<^verbatim>\<open>DescriptorKeyReference\<close>, \<^verbatim>\<open>DescriptorScriptReference\<close>)\<close>

record DescriptorKeyReference =
  kr_key_type :: DescriptorKeyType
  kr_pubkey :: bytes
  kr_schnorr_pubkey :: bytes
  kr_extprivkey :: "ExtPrivkey option"
  kr_extpubkey :: "ExtPubkey option"
  kr_key_data :: "KeyData option"
  kr_argument :: string

text \<open>The constructors from a public key, an x-only public key, an extended private
  key, an extended public key and key data; \<open>arg\<close> is the pointer to the argument.\<close>

definition KeyReference_Pubkey :: "externals \<Rightarrow> bytes \<Rightarrow> DescriptorKeyReference" where
  "KeyReference_Pubkey X pubkey =
     \<lparr> kr_key_type = kDescriptorKeyPublic, kr_pubkey = pubkey,
       kr_schnorr_pubkey = SchnorrPubkey_FromPubkey X pubkey, kr_extprivkey = None,
       kr_extpubkey = None, kr_key_data = None, kr_argument = [] \<rparr>"

definition KeyReference_Schnorr :: "externals \<Rightarrow> bytes \<Rightarrow> DescriptorKeyReference" where
  "KeyReference_Schnorr X schnorr_pubkey =
     \<lparr> kr_key_type = kDescriptorKeySchnorr,
       kr_pubkey = SchnorrPubkey_CreatePubkey X schnorr_pubkey,
       kr_schnorr_pubkey = schnorr_pubkey, kr_extprivkey = None,
       kr_extpubkey = None, kr_key_data = None, kr_argument = [] \<rparr>"

definition KeyReference_ExtPrivkey ::
  "externals \<Rightarrow> ExtPrivkey \<Rightarrow> string option \<Rightarrow> DescriptorKeyReference" where
  "KeyReference_ExtPrivkey X ext_privkey arg =
     \<lparr> kr_key_type = kDescriptorKeyBip32Priv,
       kr_pubkey = xpub_GetPubkey (xprv_GetExtPubkey ext_privkey),
       kr_schnorr_pubkey = SchnorrPubkey_FromPubkey X (xpub_GetPubkey (xprv_GetExtPubkey ext_privkey)),
       kr_extprivkey = Some ext_privkey, kr_extpubkey = None, kr_key_data = None,
       kr_argument = (case arg of None \<Rightarrow> [] | Some a \<Rightarrow> a) \<rparr>"

definition KeyReference_ExtPubkey ::
  "externals \<Rightarrow> ExtPubkey \<Rightarrow> string option \<Rightarrow> DescriptorKeyReference" where
  "KeyReference_ExtPubkey X ext_pubkey arg =
     \<lparr> kr_key_type = kDescriptorKeyBip32, kr_pubkey = xpub_GetPubkey ext_pubkey,
       kr_schnorr_pubkey = SchnorrPubkey_FromPubkey X (xpub_GetPubkey ext_pubkey),
       kr_extprivkey = None, kr_extpubkey = Some ext_pubkey, kr_key_data = None,
       kr_argument = (case arg of None \<Rightarrow> [] | Some a \<Rightarrow> a) \<rparr>"

definition KeyReference_KeyData ::
  "externals \<Rightarrow> KeyData \<Rightarrow> string option \<Rightarrow> DescriptorKeyReference" where
  "KeyReference_KeyData X key arg =
     \<lparr> kr_key_type =
         (if kd_ExtPrivkey key \<noteq> None then kDescriptorKeyBip32Priv
          else if kd_ExtPubkey key \<noteq> None then kDescriptorKeyBip32
          else kDescriptorKeyPublic),
       kr_pubkey = kd_GetPubkey key,
       kr_schnorr_pubkey = SchnorrPubkey_FromPubkey X (kd_GetPubkey key),
       kr_extprivkey = kd_ExtPrivkey key,
       kr_extpubkey = (if kd_ExtPrivkey key \<noteq> None then None else kd_ExtPubkey key),
       kr_key_data = Some key,
       kr_argument = (case arg of None \<Rightarrow> [] | Some a \<Rightarrow> a) \<rparr>"

definition kr_HasExtPubkey :: "DescriptorKeyReference \<Rightarrow> bool" where
  "kr_HasExtPubkey r =
     (kr_key_type r = kDescriptorKeyBip32 \<or> kr_key_type r = kDescriptorKeyBip32Priv)"

text \<open>\<^verbatim>\<open>DescriptorKeyReference::GetExtPubkey\<close>; the stored key is there for both key types
  by the constructors above.\<close>

definition kr_GetExtPubkey :: "DescriptorKeyReference \<Rightarrow> error + ExtPubkey" where
  "kr_GetExtPubkey r =
     (if kr_key_type r = kDescriptorKeyBip32 then
        (case kr_extpubkey r of Some k \<Rightarrow> Inr k | None \<Rightarrow> Inl OutOfRange)
      else if kr_key_type r = kDescriptorKeyBip32Priv then
        (case kr_extprivkey r of Some k \<Rightarrow> Inr (xprv_GetExtPubkey k) | None \<Rightarrow> Inl OutOfRange)
      else Inl (External ''GetExtPubkey unsupported key type.''))"

record ref_info =
  ref_script_type :: DescriptorScriptType
  ref_locking_script :: Script
  ref_is_script :: bool
  ref_redeem_script :: Script
  ref_keys :: "DescriptorKeyReference list"
  ref_req_num :: "32 word"
  ref_tapbranch :: "TapBranch option"
  ref_is_tapbranch :: bool
  ref_script_tree :: "TapBranch option"

datatype DescriptorScriptReference =
  Reference (ref: ref_info) (ref_child_script: "DescriptorScriptReference option")

definition GetLockingScript :: "DescriptorScriptReference \<Rightarrow> Script" where
  "GetLockingScript r = ref_locking_script (ref r)"

definition HasRedeemScript :: "DescriptorScriptReference \<Rightarrow> bool" where
  "HasRedeemScript r = (ref_redeem_script (ref r) \<noteq> [])"

definition GetRedeemScript :: "DescriptorScriptReference \<Rightarrow> Script" where
  "GetRedeemScript r = ref_redeem_script (ref r)"

text \<open>The constructors: from a locking script alone (\<open>raw\<close> and miniscript), with a child
  reference, with keys, from an address, with a taproot branch and with a script tree.\<close>

definition Reference_script :: "Script \<Rightarrow> DescriptorScriptType \<Rightarrow> error + DescriptorScriptReference" where
  "Reference_script locking_script st =
     (if st \<noteq> kDescriptorScriptRaw \<and> st \<noteq> kDescriptorScriptMiniscript
      then Inl (External ''If it is not a raw type, key or script is required.'')
      else Inr (Reference \<lparr> ref_script_type = st, ref_locking_script = locking_script,
             ref_is_script = False, ref_redeem_script = [], ref_keys = [], ref_req_num = 0,
             ref_tapbranch = None, ref_is_tapbranch = False, ref_script_tree = None \<rparr> None))"

definition Reference_child ::
  "Script \<Rightarrow> DescriptorScriptType \<Rightarrow> DescriptorScriptReference \<Rightarrow> DescriptorScriptReference" where
  "Reference_child locking_script st child_script =
     Reference \<lparr> ref_script_type = st, ref_locking_script = locking_script,
       ref_is_script = True, ref_redeem_script = ref_locking_script (ref child_script),
       ref_keys = [], ref_req_num = 0, ref_tapbranch = None, ref_is_tapbranch = False,
       ref_script_tree = None \<rparr> (Some child_script)"

definition Reference_keys ::
  "Script \<Rightarrow> DescriptorScriptType \<Rightarrow> DescriptorKeyReference list \<Rightarrow> 32 word
     \<Rightarrow> DescriptorScriptReference" where
  "Reference_keys locking_script st key_list req_sig_num =
     Reference \<lparr> ref_script_type = st, ref_locking_script = locking_script,
       ref_is_script = False, ref_redeem_script = [], ref_keys = key_list,
       ref_req_num = req_sig_num, ref_tapbranch = None, ref_is_tapbranch = False,
       ref_script_tree = None \<rparr> None"

definition Reference_address :: "Script \<Rightarrow> DescriptorScriptReference" where
  "Reference_address locking_script =
     Reference \<lparr> ref_script_type = kDescriptorScriptAddr, ref_locking_script = locking_script,
       ref_is_script = False, ref_redeem_script = [], ref_keys = [], ref_req_num = 0,
       ref_tapbranch = None, ref_is_tapbranch = False, ref_script_tree = None \<rparr> None"

definition Reference_tapbranch ::
  "Script \<Rightarrow> DescriptorScriptType \<Rightarrow> DescriptorKeyReference list \<Rightarrow> TapBranch
     \<Rightarrow> DescriptorScriptReference" where
  "Reference_tapbranch locking_script st key_list tapbranch =
     Reference \<lparr> ref_script_type = st, ref_locking_script = locking_script,
       ref_is_script = False, ref_redeem_script = [], ref_keys = key_list, ref_req_num = 0,
       ref_tapbranch = Some tapbranch, ref_is_tapbranch = True, ref_script_tree = None \<rparr> None"

definition Reference_script_tree ::
  "Script \<Rightarrow> DescriptorScriptType \<Rightarrow> DescriptorKeyReference list \<Rightarrow> TapBranch
     \<Rightarrow> DescriptorScriptReference" where
  "Reference_script_tree locking_script st key_list script_tree =
     Reference \<lparr> ref_script_type = st, ref_locking_script = locking_script,
       ref_is_script = False, ref_redeem_script = [], ref_keys = key_list, ref_req_num = 0,
       ref_tapbranch = None, ref_is_tapbranch = False, ref_script_tree = Some script_tree \<rparr> None"

subsection \<open>The evaluator (\<^verbatim>\<open>GetKeyReferences\<close>, \<^verbatim>\<open>GetReferences\<close>, \<^verbatim>\<open>GetTapBranch\<close>)\<close>

text \<open>The argument vector is behind a pointer that may be null: \<open>None\<close> is \<^verbatim>\<open>nullptr\<close>.
  Its back is the last element of the list.\<close>

type_synonym arguments = "string list option"

definition args_null_or_empty :: "arguments \<Rightarrow> bool" where
  "args_null_or_empty a = (case a of None \<Rightarrow> True | Some xs \<Rightarrow> xs = [])"

definition args_at0 :: "arguments \<Rightarrow> string" where
  "args_at0 a = (case a of Some (x # _) \<Rightarrow> x | _ \<Rightarrow> [])"

text \<open>\<^verbatim>\<open>try { key_data = KeyData(...); result = DescriptorKeyReference(key_data, arg); }
  catch (...) { if (value_[0] == '[') throw except; }\<close>\<close>

definition try_KeyData ::
  "externals \<Rightarrow> string \<Rightarrow> int \<Rightarrow> bool \<Rightarrow> string option \<Rightarrow> DescriptorKeyReference
     \<Rightarrow> error + DescriptorKeyReference" where
  "try_KeyData X v child_num has_schnorr arg result =
     (case KeyData_new X v child_num has_schnorr of
        Some key_data \<Rightarrow> Inr (KeyReference_KeyData X key_data arg)
      | None \<Rightarrow> if take 1 v = ''['' then Inl (External ''KeyData'') else Inr result)"

definition GetKeyReferences ::
  "externals \<Rightarrow> node \<Rightarrow> arguments \<Rightarrow> error + (DescriptorKeyReference \<times> arguments)" where
  "GetKeyReferences X n array_argument =
     (let i = info n in
      if key_type i = kDescriptorKeyPublic then
        (case lib ''Pubkey'' (Pubkey_hex X (key_info i)) of
           Inl e \<Rightarrow> Inl e
         | Inr pubkey \<Rightarrow>
             (case try_KeyData X (val i) (- 1) False None (KeyReference_Pubkey X pubkey) of
                Inl e \<Rightarrow> Inl e
              | Inr result \<Rightarrow>
                  if \<not> Pubkey_IsValid X pubkey then Inl InvalidPubkeyData
                  else Inr (result, array_argument)))
      else if key_type i = kDescriptorKeySchnorr then
        (case lib ''SchnorrPubkey'' (SchnorrPubkey_hex X (key_info i)) of
           Inl e \<Rightarrow> Inl e
         | Inr schnorr_pubkey \<Rightarrow>
             (case try_KeyData X (val i) (- 1) True None (KeyReference_Schnorr X schnorr_pubkey) of
                Inl e \<Rightarrow> Inl e
              | Inr result \<Rightarrow>
                  if \<not> Pubkey_IsValid X (SchnorrPubkey_CreatePubkey X schnorr_pubkey)
                  then Inl InvalidPubkeyData
                  else Inr (result, array_argument)))
      else if key_type i = kDescriptorKeyBip32 \<or> key_type i = kDescriptorKeyBip32Priv then
        (if need_arg_num i \<noteq> 0 \<and> args_null_or_empty array_argument
         then Inl GeneratePubkeyFromHdkey
         else
           (let has_base = (need_arg_num i \<noteq> 0 \<and> args_at0 array_argument = kArgumentBaseExtkey X);
                dynamic = (need_arg_num i \<noteq> 0 \<and> \<not> has_base);
                using_key = (if has_base then base_extkey i else key_info i);
                need = (if has_base then 0 else need_arg_num i);
                arg_value = (if dynamic then last (the array_argument) else []);
                args1 = (if dynamic then Some (butlast (the array_argument)) else array_argument);
                arg_pointer = (if dynamic then Some arg_value else None)
            in case
                 (if key_type i = kDescriptorKeyBip32Priv then
                    (case lib ''ExtPrivkey'' (ExtPrivkey_new X using_key (tweak_sum i)) of
                       Inl e \<Rightarrow> Inl e
                     | Inr xpriv0 \<Rightarrow>
                         (case (if need \<noteq> 0
                                then lib ''DerivePrivkey'' (ExtPrivkey_DerivePrivkey X xpriv0 arg_value)
                                else Inr xpriv0) of
                            Inl e \<Rightarrow> Inl e
                          | Inr xpriv \<Rightarrow>
                              Inr (xprv_GetExtPubkey xpriv, KeyReference_ExtPrivkey X xpriv arg_pointer)))
                  else
                    (case lib ''ExtPubkey'' (ExtPubkey_new X using_key (tweak_sum i)) of
                       Inl e \<Rightarrow> Inl e
                     | Inr xpub0 \<Rightarrow>
                         (case (if need \<noteq> 0
                                then lib ''DerivePubkey'' (ExtPubkey_DerivePubkey X xpub0 arg_value)
                                else Inr xpub0) of
                            Inl e \<Rightarrow> Inl e
                          | Inr xpub \<Rightarrow> Inr (xpub, KeyReference_ExtPubkey X xpub arg_pointer))))
               of
                 Inl e \<Rightarrow> Inl e
               | Inr (xpub, result0) \<Rightarrow>
                   if \<not> xpub_IsValid xpub then Inl GeneratePubkeyFromHdkey
                   else
                     (case (if (need = 0 \<and> \<not> has_base) \<or> (arg_value \<noteq> [] \<and> CHR ''/'' \<notin> set arg_value)
                            then try_KeyData X (val i) (sint (xpub_GetChildNum xpub)) False
                                   arg_pointer result0
                            else Inr result0) of
                        Inl e \<Rightarrow> Inl e
                      | Inr result \<Rightarrow>
                          if \<not> Pubkey_IsValid X (xpub_GetPubkey xpub) then Inl InvalidPubkeyData
                          else Inr (result, args1))))
      else Inl InvalidPubkeyData)"

text \<open>In the last case no branch assigns \<open>pubkey\<close>, and a default \<^verbatim>\<open>Pubkey\<close> is not valid.\<close>

definition GetPubkey :: "externals \<Rightarrow> node \<Rightarrow> arguments \<Rightarrow> error + (bytes \<times> arguments)" where
  "GetPubkey X n array_argument =
     (case GetKeyReferences X n array_argument of
        Inl e \<Rightarrow> Inl e
      | Inr (r, a) \<Rightarrow> Inr (kr_pubkey r, a))"

text \<open>\<^verbatim>\<open>std::string::find(str)\<close> and the loop of \<^verbatim>\<open>GetTapBranch\<close> that replaces every
  occurrence of a leaf by its target. The loop searches from the start again after each
  replacement, so it does not return when the target contains the leaf: \<open>None\<close>.\<close>

fun find_str :: "string \<Rightarrow> string \<Rightarrow> nat option" where
  "find_str [] pat = (if pat = [] then Some 0 else None)"
| "find_str (x # xs) pat =
     (if take (length pat) (x # xs) = pat then Some 0 else map_option Suc (find_str xs pat))"

partial_function (option) replace_every :: "string \<Rightarrow> string \<Rightarrow> string \<Rightarrow> string option" where
  "replace_every desc script_str target =
     (case find_str desc script_str of
        None \<Rightarrow> Some desc
      | Some off \<Rightarrow>
          replace_every (take off desc @ target @ drop (off + length script_str) desc)
            script_str target)"

declare replace_every.simps [code]

text \<open>The keys of \<open>tree_node_\<close>, longest first.\<close>

definition sort_func :: "string \<Rightarrow> string \<Rightarrow> bool" where
  "sort_func src dest = (length src > length dest)"

text \<open>\<^verbatim>\<open>list[0]\<close> of \<^verbatim>\<open>GetReference\<close>.\<close>

definition first_reference ::
  "error + (DescriptorScriptReference list \<times> arguments)
     \<Rightarrow> error + (DescriptorScriptReference \<times> arguments)" where
  "first_reference r =
     (case r of Inl e \<Rightarrow> Inl e | Inr ([], a) \<Rightarrow> Inl OutOfRange | Inr (x # _, a) \<Rightarrow> Inr (x, a))"

text \<open>The child number of a miniscript node, from the argument vector.\<close>

definition miniscript_child_num ::
  "externals \<Rightarrow> node \<Rightarrow> arguments \<Rightarrow> error + (32 word \<times> arguments)" where
  "miniscript_child_num X n array_argument =
     (if need_arg_num (info n) = 0 then Inr (0, array_argument)
      else if args_null_or_empty array_argument then Inl GenerateMiniscriptFromHdkey
      else if args_at0 array_argument = kArgumentBaseExtkey X then Inr (0, array_argument)
      else
        (let arg_value = last (the array_argument);
             args1 = Some (butlast (the array_argument))
         in if CHR ''/'' \<in> set arg_value then Inl MiniscriptSingleChild
            else case stoul arg_value of
                   None \<Rightarrow> Inl (External ''stoul'')
                 | Some (v, end_pos) \<Rightarrow>
                     if end_pos \<noteq> 0 \<and> end_pos < length arg_value then Inl ArgumentNumberOnly
                     else Inr (of_nat v, args1)))"

text \<open>\<^verbatim>\<open>bip32_type\<close>: \<^verbatim>\<open>kNormal\<close>, or the format of the extended key of the reference.\<close>

definition bip32_type_of :: "DescriptorKeyReference \<Rightarrow> error + Bip32FormatType" where
  "bip32_type_of r =
     (if kr_HasExtPubkey r
      then (case kr_GetExtPubkey r of Inl e \<Rightarrow> Inl e | Inr k \<Rightarrow> Inr (xpub_GetFormatType k))
      else Inr kNormal)"

text \<open>The references of a \<open>combo\<close> node and of \<open>pk\<close>, \<open>pkh\<close>, \<open>wpkh\<close> (the last branch of
  \<^verbatim>\<open>GetReferences\<close>), from the key reference of the child.\<close>

definition key_script_references ::
  "externals \<Rightarrow> node \<Rightarrow> node option \<Rightarrow> DescriptorKeyReference
     \<Rightarrow> error + DescriptorScriptReference list" where
  "key_script_references X n parent r =
     (let keys = [r]; st = script_type (info n) in
      case bip32_type_of r of
        Inl e \<Rightarrow> Inl e
      | Inr bip32_type \<Rightarrow>
          (let pubkey = kr_pubkey r in
           if st = kDescriptorScriptCombo then
             (let (result1, locking_script1) =
                    (if Pubkey_IsCompress X pubkey \<and> bip32_type \<noteq> kBip49
                     then ([Reference_keys (CreateP2wpkhLockingScript X pubkey) st keys 0],
                           CreateP2wpkhLockingScript X pubkey)
                     else ([], []));
                  (result2, locking_script2) =
                    (if Pubkey_IsCompress X pubkey \<and> bip32_type \<noteq> kBip84
                     then (result1 @
                           [Reference_child (CreateP2shLockingScript X locking_script1) st
                              (Reference_keys locking_script1 kDescriptorScriptWpkh keys 0)],
                           CreateP2shLockingScript X locking_script1)
                     else (result1, locking_script1));
                  result3 =
                    (if bip32_type = kNormal
                     then result2 @
                          [Reference_keys (CreateP2pkhLockingScript X pubkey) st keys 0,
                           Reference_keys [Data pubkey, Op OP_CHECKSIG] st keys 0]
                     else result2)
              in Inr result3)
           else if st = kDescriptorScriptPkh then
             (if bip32_type \<noteq> kNormal then Inl PkhBip32Format
              else Inr [Reference_keys (CreateP2pkhLockingScript X pubkey) st keys 0])
           else if st = kDescriptorScriptWpkh then
             (if bip32_type = kBip49 \<and>
                 (case parent of None \<Rightarrow> True
                  | Some p \<Rightarrow> script_type (info p) \<noteq> kDescriptorScriptSh)
              then Inl Bip49ShWpkhOnly
              else if bip32_type = kBip84 \<and> parent \<noteq> None then Inl Bip84WpkhOnly
              else Inr [Reference_keys (CreateP2wpkhLockingScript X pubkey) st keys 0])
           else if st = kDescriptorScriptPk then
             (if bip32_type \<noteq> kNormal then Inl PkBip32Format
              else if parent_kind (info n) = ''tr''
              then Inr [Reference_keys [Data (SchnorrPubkey_FromPubkey X pubkey), Op OP_CHECKSIG] st keys 0]
              else Inr [Reference_keys [Data pubkey, Op OP_CHECKSIG] st keys 0])
           else Inr [Reference_keys [] st keys 0]))"

text \<open>The first statement of \<^verbatim>\<open>GetReferences\<close>: at depth 0, a vector of more than one
  argument is reversed.\<close>

definition entry_arguments :: "node \<Rightarrow> arguments \<Rightarrow> arguments" where
  "entry_arguments n array_argument =
     (case array_argument of
        None \<Rightarrow> None
      | Some a \<Rightarrow> if depth (info n) = 0 \<and> length a > 1 then Some (rev a) else Some a)"

text \<open>The loop of a multisig node over its keys, \<open>child_node_[1]\<close>, \<open>child_node_[2]\<close>, ...\<close>

definition multisig_keys ::
  "externals \<Rightarrow> node list \<Rightarrow> arguments \<Rightarrow> error + (DescriptorKeyReference list \<times> arguments)" where
  "multisig_keys X cs array_argument =
     foldM (\<lambda>c (keys, a).
              case GetKeyReferences X c a of
                Inl e \<Rightarrow> Inl e
              | Inr (key_ref, a') \<Rightarrow> Inr (keys @ [key_ref], a'))
       cs ([], array_argument)"

text \<open>
  \<^verbatim>\<open>GetReferences\<close> and \<^verbatim>\<open>GetTapBranch\<close>. The result carries the argument vector as the
  call leaves it. \<^verbatim>\<open>GetReference\<close> is \<open>first_reference\<close> of \<^verbatim>\<open>GetReferences\<close>. The parent
  is a pointer to a node, \<open>None\<close> for \<^verbatim>\<open>nullptr\<close>.
\<close>

function GetReferences ::
    "externals \<Rightarrow> node \<Rightarrow> arguments \<Rightarrow> node option
       \<Rightarrow> error + (DescriptorScriptReference list \<times> arguments)"
  and GetTapBranch :: "externals \<Rightarrow> node \<Rightarrow> arguments \<Rightarrow> error + (TapBranch \<times> arguments)"
where
  "GetReferences X n array_argument0 parent =
     (let i = info n; st = script_type i;
          array_argument = entry_arguments n array_argument0
      in
      if node_type i = kDescriptorTypeKey then Inr ([], array_argument)
      else if node_type i = kDescriptorTypeNumber then Inr ([], array_argument)
      else if node_type i = kDescriptorTypeScript then
        (if st = kDescriptorScriptMiniscript then
           (case miniscript_child_num X n array_argument of
              Inl e \<Rightarrow> Inl e
            | Inr (child_num, args1) \<Rightarrow>
                (case wally_descriptor_parse_miniscript X (val i) child_num
                        (if parent_kind i = ''tr'' then WALLY_MINISCRIPT_TAPSCRIPT else NO_FLAGS)
                        (unat (number i)) of
                   None \<Rightarrow> Inl ParseMiniscript
                 | Some (script, written) \<Rightarrow>
                     if written \<le> unat (number i) then
                       (case Reference_script (Script_bytes X script) st of
                          Inl e \<Rightarrow> Inl e | Inr r \<Rightarrow> Inr ([r], args1))
                     else Inl ParseMiniscript))
         else if st = kDescriptorScriptRaw then
           (case lib ''Script'' (Script_hex X (val i)) of
              Inl e \<Rightarrow> Inl e
            | Inr locking_script \<Rightarrow>
                (case Reference_script locking_script st of
                   Inl e \<Rightarrow> Inl e | Inr r \<Rightarrow> Inr ([r], array_argument)))
         else if st = kDescriptorScriptAddr then
           (case lib ''Address'' (Address_GetLockingScript X (val i)) of
              Inl e \<Rightarrow> Inl e
            | Inr locking_script \<Rightarrow> Inr ([Reference_address locking_script], array_argument))
         else if st = kDescriptorScriptMulti \<or> st = kDescriptorScriptSortedMulti then
           (case child_node n of
              [] \<Rightarrow> Inl OutOfRange
            | c0 # cs \<Rightarrow>
                (let reqnum = number (info c0) in
                 case multisig_keys X cs array_argument of
                   Inl e \<Rightarrow> Inl e
                 | Inr (keys, args1) \<Rightarrow>
                     (let pubkeys0 = map kr_pubkey keys;
                          pubkeys = (if st = kDescriptorScriptSortedMulti
                                     then std_sort (Pubkey_IsLarge X) pubkeys0 else pubkeys0);
                          has_witness =
                            (case parent of None \<Rightarrow> False
                             | Some p \<Rightarrow> script_type (info p) = kDescriptorScriptWsh)
                      in case CreateMultisigRedeemScript X reqnum pubkeys has_witness of
                           Inl e \<Rightarrow> Inl e
                         | Inr locking_script \<Rightarrow>
                             Inr ([Reference_keys locking_script st keys reqnum], args1))))
         else if st = kDescriptorScriptSh \<or> st = kDescriptorScriptWsh then
           (case child_node n of
              [] \<Rightarrow> Inl OutOfRange
            | c0 # cs \<Rightarrow>
                (case first_reference (GetReferences X c0 array_argument (Some n)) of
                   Inl e \<Rightarrow> Inl e
                 | Inr (r, args1) \<Rightarrow>
                     (let script = GetLockingScript r;
                          locking_script =
                            (if st = kDescriptorScriptWsh then CreateP2wshLockingScript X script
                             else CreateP2shLockingScript X script)
                      in Inr ([Reference_child locking_script st r], args1))))
         else if st = kDescriptorScriptTaproot then
           (case child_node n of
              [] \<Rightarrow> Inl OutOfRange
            | c0 # cs \<Rightarrow>
                (case GetKeyReferences X c0 array_argument of
                   Inl e \<Rightarrow> Inl e
                 | Inr (r, args1) \<Rightarrow>
                     (let pubkey = kr_schnorr_pubkey r; keys = [r] in
                      case (case cs of
                              [] \<Rightarrow> Inr (TapBranch_empty X, args1)
                            | c1 # _ \<Rightarrow> GetTapBranch X c1 args1) of
                        Inl e \<Rightarrow> Inl e
                      | Inr (branch, args2) \<Rightarrow>
                          if tb_HasTapLeaf branch then
                            (case lib ''CreateTapScriptControl'' (CreateTapScriptControl_tree X pubkey branch) of
                               Inl e \<Rightarrow> Inl e
                             | Inr locking_script \<Rightarrow>
                                 Inr ([Reference_script_tree locking_script st keys branch], args2))
                          else
                            (case lib ''CreateTapScriptControl'' (CreateTapScriptControl_branch X pubkey branch) of
                               Inl e \<Rightarrow> Inl e
                             | Inr locking_script \<Rightarrow>
                                 Inr ([Reference_tapbranch locking_script st keys branch], args2)))))
         else
           (case child_node n of
              [] \<Rightarrow> Inl OutOfRange
            | c0 # cs \<Rightarrow>
                (case GetKeyReferences X c0 array_argument of
                   Inl e \<Rightarrow> Inl e
                 | Inr (r, args1) \<Rightarrow>
                     (case key_script_references X n parent r of
                        Inl e \<Rightarrow> Inl e
                      | Inr result \<Rightarrow> Inr (result, args1)))))
      else Inr ([], array_argument))"
| "GetTapBranch X n array_argument =
     (let key_list = std_sort sort_func (map fst (tree_node n)) in
      case foldM (\<lambda>script_str (desc, first_script, a).
                    case map_of (tree_node n) script_str of
                      None \<Rightarrow> Inl OutOfRange
                    | Some node_ref \<Rightarrow>
                        (case (if node_type (info node_ref) = kDescriptorTypeKey then
                                 (case GetKeyReferences X node_ref a of
                                    Inl e \<Rightarrow> Inl e
                                  | Inr (r, a') \<Rightarrow>
                                      Inr (GetHex X (kr_schnorr_pubkey r), first_script, a'))
                               else
                                 (case first_reference (GetReferences X node_ref a None) of
                                    Inl e \<Rightarrow> Inl e
                                  | Inr (obj, a') \<Rightarrow>
                                      (let script = (if HasRedeemScript obj then GetRedeemScript obj
                                                     else GetLockingScript obj)
                                       in Inr (''tl('' @ Script_GetHex X script @ '')'',
                                               if first_script = [] then script else first_script,
                                               a')))) of
                           Inl e \<Rightarrow> Inl e
                         | Inr (target, first_script', a') \<Rightarrow>
                             if script_str \<noteq> target then
                               (case replace_every desc script_str target of
                                  None \<Rightarrow> Inl Diverges
                                | Some desc' \<Rightarrow> Inr (desc', first_script', a'))
                             else Inr (desc, first_script', a')))
             key_list (val (info n), [], array_argument) of
        Inl e \<Rightarrow> Inl e
      | Inr (desc, first_script, args1) \<Rightarrow>
          if desc = [] \<or> desc = ''{}'' then Inr (TapBranch_empty X, args1)
          else
            (case lib ''TapBranch::FromString'' (TapBranch_FromString X desc) of
               Inl e \<Rightarrow> Inl e
             | Inr tree \<Rightarrow>
                 if \<not> tb_HasTapLeaf tree \<and> first_script \<noteq> []
                 then Inr (TapBranch_ChangeTapLeaf X tree first_script, args1)
                 else Inr (tree, args1)))"
  by pat_completeness auto

termination
proof (relation "measure (\<lambda>x. case x of Inl (X, n, a, p) \<Rightarrow> size n | Inr (X, n, a) \<Rightarrow> size n)",
    goal_cases)
  case 1
  then show ?case by simp
next
  case (2 X n array_argument0 parent)
  then show ?case by (cases n) auto
next
  case (3 X n)
  then show ?case by (cases n) auto
next
  case (4 X n)
  then show ?case
    by (cases n) (auto dest!: size_map_of_less simp: less_Suc_eq)
qed

definition GetReference ::
  "externals \<Rightarrow> node \<Rightarrow> arguments \<Rightarrow> node option \<Rightarrow> error + (DescriptorScriptReference \<times> arguments)" where
  "GetReference X n array_argument parent = first_reference (GetReferences X n array_argument parent)"

text \<open>\<^verbatim>\<open>GetNeedArgumentNum\<close>, a sum of \<^verbatim>\<open>uint32_t\<close>.\<close>

fun GetNeedArgumentNum :: "node \<Rightarrow> 32 word" where
  "GetNeedArgumentNum (Node i cs t) = need_arg_num i + sum_list (map GetNeedArgumentNum cs)"

subsection \<open>The key expression parser (\<^verbatim>\<open>DescriptorNode::AnalyzeKey\<close>)\<close>

fun mapM :: "('a \<Rightarrow> error + 'b) \<Rightarrow> 'a list \<Rightarrow> error + 'b list" where
  "mapM f [] = Inr []"
| "mapM f (x # xs) =
     (case f x of
        Inl e \<Rightarrow> Inl e
      | Inr y \<Rightarrow> (case mapM f xs of Inl e \<Rightarrow> Inl e | Inr ys \<Rightarrow> Inr (y # ys)))"

lemma mapM_cong [fundef_cong]:
  assumes "xs = ys" "\<And>x. x \<in> set ys \<Longrightarrow> f x = g x"
  shows "mapM f xs = mapM g ys"
  unfolding assms(1) using assms(2)
  by (induction ys) (auto split: sum.splits)

definition is_wildcard :: "string \<Rightarrow> bool" where
  "is_wildcard seg = (seg = ''*'' \<or> seg = [CHR ''*'', CHR 0x27] \<or> seg = ''*h'')"

definition is_hardened_wildcard :: "string \<Rightarrow> bool" where
  "is_hardened_wildcard seg = (seg = [CHR ''*'', CHR 0x27] \<or> seg = ''*h'')"

text \<open>The loop over the path segments \<open>list[1]\<close>, \<open>list[2]\<close>, ...: the index at which it
  stops, whether it stopped at a hardened wildcard, and the path before that index.\<close>

fun join_path :: "string list \<Rightarrow> string" where
  "join_path [] = []"
| "join_path [seg] = seg"
| "join_path (seg # rest) = seg @ ''/'' @ join_path rest"

definition path_loop :: "string list \<Rightarrow> nat \<times> bool \<times> string" where
  "path_loop list =
     (let fixed = takeWhile (\<lambda>seg. \<not> is_wildcard seg) (tl list);
          index = 1 + length fixed
      in (index, index < length list \<and> is_hardened_wildcard (list ! index), join_path fixed))"

text \<open>The key without the origin information \<open>[...]\<close>, and its characters 1 to 3.\<close>

definition strip_origin :: "string \<Rightarrow> string" where
  "strip_origin v =
     (if take 1 v = ''['' then
        (case find_char v CHR '']'' of None \<Rightarrow> v | Some pos \<Rightarrow> substr_from v (pos + 1))
      else v)"

definition hdkey_top_of :: "string \<Rightarrow> string" where
  "hdkey_top_of key_info0 = (if length key_info0 > 4 then substr key_info0 1 3 else [])"

definition AnalyzeKey :: "externals \<Rightarrow> node \<Rightarrow> error + node" where
  "AnalyzeKey X n =
     (let key_info0 = strip_origin (val (info n));
          hdkey_top = hdkey_top_of key_info0
      in
      if hdkey_top = ''pub'' \<or> hdkey_top = ''prv'' then
        (let kt = (if hdkey_top = ''prv'' then kDescriptorKeyBip32Priv else kDescriptorKeyBip32);
             list = Split X key_info0 ''/''
         in case list of
              [] \<Rightarrow> Inl OutOfRange
            | key # _ \<Rightarrow>
                (let need = (if length list > 1 \<and> CHR ''*'' \<in> set key_info0
                             then 1 else need_arg_num (info n));
                     (index, hardened, path) =
                       (if length list > 1 then path_loop list else (0, False, []))
                 in if length list > 1 \<and> index + 1 < length list then Inl WildcardNotAtEnd
                    else if kt = kDescriptorKeyBip32Priv then
                      (case lib ''ExtPrivkey'' (ExtPrivkey_parse X key) of
                         Inl e \<Rightarrow> Inl e
                       | Inr xpriv0 \<Rightarrow>
                           (case (if path \<noteq> []
                                  then lib ''DerivePrivkey'' (ExtPrivkey_DerivePrivkey X xpriv0 path)
                                  else Inr xpriv0) of
                              Inl e \<Rightarrow> Inl e
                            | Inr xpriv \<Rightarrow>
                                Inr (upd (\<lambda>i. i\<lparr> key_type := kt, need_arg_num := need,
                                                 base_extkey := key,
                                                 key_info := xprv_ToString xpriv,
                                                 tweak_sum := xprv_GetPubTweakSum xpriv \<rparr>) n)))
                    else if hardened then Inl HardenedIsExtPrivkeyOnly
                    else
                      (case lib ''ExtPubkey'' (ExtPubkey_parse X key) of
                         Inl e \<Rightarrow> Inl e
                       | Inr xpub0 \<Rightarrow>
                           (case (if path \<noteq> []
                                  then lib ''DerivePubkey'' (ExtPubkey_DerivePubkey X xpub0 path)
                                  else Inr xpub0) of
                              Inl e \<Rightarrow> Inl e
                            | Inr xpub \<Rightarrow>
                                Inr (upd (\<lambda>i. i\<lparr> key_type := kt, need_arg_num := need,
                                                 base_extkey := key,
                                                 key_info := xpub_ToString xpub,
                                                 tweak_sum := xpub_GetPubTweakSum xpub \<rparr>) n)))))
      else
        (case
           (case ByteData_hex X key_info0 of
              None \<Rightarrow> Inr None
            | Some bytes \<Rightarrow>
                if Pubkey_IsValid X bytes then
                  (if parent_kind (info n) = ''tr'' then Inl TaprootXonlyPubkeyOnly
                   else Inr (Some (kDescriptorKeyPublic, bytes, GetHex X bytes)))
                else if parent_kind (info n) = ''tr'' \<and> length bytes = kSchnorrPubkeySize then
                  (case lib ''SchnorrPubkey'' (SchnorrPubkey_bytes X bytes) of
                     Inl e \<Rightarrow> Inl e
                   | Inr schnorr_pubkey \<Rightarrow>
                       Inr (Some (kDescriptorKeySchnorr, SchnorrPubkey_CreatePubkey X schnorr_pubkey,
                                  GetHex X schnorr_pubkey)))
                else Inr None)
         of
           Inl e \<Rightarrow> Inl e
         | Inr (Some (kt, pubkey, ki)) \<Rightarrow>
             Inr (upd (\<lambda>i. i\<lparr> key_type := kt, key_info := ki,
                              is_uncompressed_key := \<not> Pubkey_IsCompress X pubkey \<rparr>) n)
         | Inr None \<Rightarrow>
             (case Privkey_HasWif X key_info0 of
                None \<Rightarrow> Inl PrivkeyInvalid
              | Some (nettype, is_compressed) \<Rightarrow>
                  (case lib ''Privkey::FromWif'' (Privkey_FromWif X key_info0 nettype is_compressed) of
                     Inl e \<Rightarrow> Inl e
                   | Inr privkey \<Rightarrow>
                       if \<not> Privkey_IsValid X privkey then Inl PrivkeyInvalid
                       else
                         (let pubkey = Privkey_GeneratePubkey X privkey is_compressed
                          in Inr (upd (\<lambda>i. i\<lparr> key_type := kDescriptorKeyPublic,
                                               key_info := GetHex X pubkey,
                                               is_uncompressed_key := \<not> Pubkey_IsCompress X pubkey \<rparr>)
                                        n))))))"

fun ExistUncompressedKey :: "node \<Rightarrow> bool" where
  "ExistUncompressedKey (Node i cs t) =
     (is_uncompressed_key i \<or> (\<exists>c \<in> set cs. ExistUncompressedKey c))"

subsection \<open>The validator (\<^verbatim>\<open>DescriptorNode::AnalyzeAll\<close>, \<^verbatim>\<open>AnalyzeScriptTree\<close>)\<close>

record DescriptorNodeScriptData =
  sd_name :: string
  sd_type :: DescriptorScriptType
  sd_top_only :: bool
  sd_has_child :: bool
  sd_multisig :: bool

definition kDescriptorNodeScriptTable :: "DescriptorNodeScriptData list" where
  "kDescriptorNodeScriptTable =
     [\<lparr>sd_name = ''sh'', sd_type = kDescriptorScriptSh, sd_top_only = True, sd_has_child = True, sd_multisig = False\<rparr>,
      \<lparr>sd_name = ''combo'', sd_type = kDescriptorScriptCombo, sd_top_only = True, sd_has_child = True, sd_multisig = False\<rparr>,
      \<lparr>sd_name = ''wsh'', sd_type = kDescriptorScriptWsh, sd_top_only = False, sd_has_child = True, sd_multisig = False\<rparr>,
      \<lparr>sd_name = ''pk'', sd_type = kDescriptorScriptPk, sd_top_only = False, sd_has_child = True, sd_multisig = False\<rparr>,
      \<lparr>sd_name = ''pkh'', sd_type = kDescriptorScriptPkh, sd_top_only = False, sd_has_child = True, sd_multisig = False\<rparr>,
      \<lparr>sd_name = ''wpkh'', sd_type = kDescriptorScriptWpkh, sd_top_only = False, sd_has_child = True, sd_multisig = False\<rparr>,
      \<lparr>sd_name = ''multi'', sd_type = kDescriptorScriptMulti, sd_top_only = False, sd_has_child = True, sd_multisig = True\<rparr>,
      \<lparr>sd_name = ''sortedmulti'', sd_type = kDescriptorScriptSortedMulti, sd_top_only = False, sd_has_child = True, sd_multisig = True\<rparr>,
      \<lparr>sd_name = ''addr'', sd_type = kDescriptorScriptAddr, sd_top_only = True, sd_has_child = False, sd_multisig = False\<rparr>,
      \<lparr>sd_name = ''raw'', sd_type = kDescriptorScriptRaw, sd_top_only = True, sd_has_child = False, sd_multisig = False\<rparr>,
      \<lparr>sd_name = ''tr'', sd_type = kDescriptorScriptTaproot, sd_top_only = True, sd_has_child = True, sd_multisig = False\<rparr>]"

text \<open>The three checks of a multisig node on the number of its children: the first child
  is the required number of signatures, the others are the public keys.\<close>

definition multisig_num_checks :: "string \<Rightarrow> node list \<Rightarrow> error option" where
  "multisig_num_checks parent_name cs =
     (if length cs < 2 then Some MultisigNodeLow
      else
        (let pubkey_num = length cs - 1;
             max_pubkey_num = (if parent_name = ''wsh'' then kMaxMultisigPubkeyNum else 16)
         in if number (info (hd cs)) = 0 \<or> pubkey_num < unat (number (info (hd cs)))
            then Some MultisigRequireNum
            else if pubkey_num > max_pubkey_num then Some MultisigPubkeyNum
            else None))"

text \<open>Inside \<open>wsh\<close>, every key of a multisig node derives to a compressed public key; the
  vector \<open>temp_args\<close> gets one more "0" before each key.\<close>

fun multisig_compress_check :: "externals \<Rightarrow> node list \<Rightarrow> string list \<Rightarrow> error + unit" where
  "multisig_compress_check X [] temp_args = Inr ()"
| "multisig_compress_check X (child # rest) temp_args =
     (if node_type (info child) = kDescriptorTypeNumber then multisig_compress_check X rest temp_args
      else case GetPubkey X child (Some (temp_args @ [''0''])) of
             Inl e \<Rightarrow> Inl e
           | Inr (pubkey, a) \<Rightarrow>
               if \<not> Pubkey_IsCompress X pubkey then Inl MultisigUncompressPubkey
               else multisig_compress_check X rest (case a of Some xs \<Rightarrow> xs | None \<Rightarrow> []))"

text \<open>
  \<^verbatim>\<open>AnalyzeAll\<close>. Its first argument stands for \<^verbatim>\<open>child_node_[1].AnalyzeScriptTree()\<close>, the
  one call that builds nodes from text again rather than descending into the children.
\<close>

function AnalyzeAll_gen ::
  "(node \<Rightarrow> error + node) \<Rightarrow> externals \<Rightarrow> string \<Rightarrow> node \<Rightarrow> error + node" where
  "AnalyzeAll_gen T X parent_name n =
     (let i = info n; nm = name i; cs = child_node n in
      if node_type i = kDescriptorTypeNumber then Inr n
      else if node_type i = kDescriptorTypeKey then AnalyzeKey X n
      else if nm = [] then Inl NameFieldEmpty
      else case find (\<lambda>d. nm = sd_name d) kDescriptorNodeScriptTable of
        None \<Rightarrow>
          (if parent_name = ''wsh'' \<or> parent_name = ''sh'' \<or> parent_name = ''tr'' then
             (let max_size = (if parent_name = ''sh'' then kMaxRedeemScriptSize else kMaxScriptSize X);
                  miniscript = nm @ ''('' @ val i @ '')'';
                  flags = (if parent_name = ''tr'' then WALLY_MINISCRIPT_TAPSCRIPT
                           else WALLY_MINISCRIPT_WITNESS_SCRIPT)
              in case wally_descriptor_parse_miniscript X miniscript 0 flags max_size of
                   Some (script, written) \<Rightarrow>
                     Inr (set_children []
                            (upd (\<lambda>i. i\<lparr> script_type := kDescriptorScriptMiniscript,
                                           val := miniscript, name := ''miniscript'',
                                           number := of_nat written,
                                           need_arg_num := (if CHR ''*'' \<in> set miniscript then 1 else 0) \<rparr>)
                               n))
                 | None \<Rightarrow> Inl ParseMiniscriptFail)
           else Inl ScriptNameNotFound)
      | Some p_data \<Rightarrow>
          if sd_top_only p_data \<and> depth i \<noteq> 0 then Inl TopOnly
          else if sd_has_child p_data \<and> cs = [] then Inl ChildNodeEmpty
          else if \<not> sd_has_child p_data \<and> cs \<noteq> [] then Inl ChildNodeNum
          else
            (case
               (if sd_multisig p_data then
                  (if parent_kind i = ''tr'' then Inl MultisigTaprootUnsupported
                   else case multisig_num_checks parent_name cs of
                     Some e \<Rightarrow> Inl e
                   | None \<Rightarrow>
                       (case mapM (AnalyzeAll_gen T X nm) cs of
                          Inl e \<Rightarrow> Inl e
                        | Inr cs' \<Rightarrow>
                            (let n1 = set_children cs' n in
                             if parent_name = ''sh'' then
                               (let n2 = upd (\<lambda>i. i\<lparr>script_type := sd_type p_data\<rparr>) n1 in
                                case GetReference X n2 None (Some n2) of
                                  Inl e \<Rightarrow> Inl e
                                | Inr (r, a) \<Rightarrow>
                                    if Script_GetDataSize X (GetLockingScript r) + 3 > kMaxRedeemScriptSize
                                    then Inl ScriptSizeOver else Inr n2)
                             else if parent_name = ''wsh'' then
                               (case multisig_compress_check X cs' [] of
                                  Inl e \<Rightarrow> Inl e | Inr _ \<Rightarrow> Inr n1)
                             else Inr n1)))
                else if nm = ''addr'' then
                  (case lib ''Address'' (Address_GetLockingScript X (val i)) of
                     Inl e \<Rightarrow> Inl e | Inr _ \<Rightarrow> Inr n)
                else if nm = ''raw'' then
                  (case lib ''Script'' (Script_hex X (val i)) of
                     Inl e \<Rightarrow> Inl e | Inr _ \<Rightarrow> Inr n)
                else if nm = ''tr'' then
                  (case cs of
                     [] \<Rightarrow> Inl TaprootNodeNum
                   | c0 # rest \<Rightarrow>
                       if length rest > 1 then Inl TaprootNodeNum
                       else
                         (case AnalyzeAll_gen T X nm
                                 (upd (\<lambda>i. i\<lparr>node_type := kDescriptorTypeKey, parent_kind := ''tr''\<rparr>) c0) of
                            Inl e \<Rightarrow> Inl e
                          | Inr c0' \<Rightarrow>
                              (case GetPubkey X c0' (Some [''0'']) of
                                 Inl e \<Rightarrow> Inl e
                               | Inr (pubkey, a) \<Rightarrow>
                                   if \<not> Pubkey_IsCompress X pubkey then Inl TaprootUncompressPubkey
                                   else
                                     (case rest of
                                        [] \<Rightarrow> Inr (set_children [c0'] n)
                                      | c1 # _ \<Rightarrow>
                                          (case T (upd (\<lambda>i. i\<lparr>parent_kind := ''tr''\<rparr>) c1) of
                                             Inl e \<Rightarrow> Inl e
                                           | Inr c1' \<Rightarrow>
                                               (let temp_args =
                                                      (case a of Some xs \<Rightarrow> xs | None \<Rightarrow> []) @
                                                      replicate (unat (GetNeedArgumentNum c1')) ''0''
                                                in case GetTapBranch X c1' (Some temp_args) of
                                                     Inl e \<Rightarrow> Inl e
                                                   | Inr _ \<Rightarrow> Inr (set_children [c0', c1'] n)))))))
                else
                  (case cs of
                     [c0] \<Rightarrow>
                       if nm = ''wsh'' \<and> parent_name \<noteq> [] \<and> parent_name \<noteq> ''sh'' then Inl WshParent
                       else if nm = ''wpkh'' \<and> parent_name \<noteq> [] \<and> parent_name \<noteq> ''sh'' then Inl WpkhParent
                       else if (nm = ''wsh'' \<or> nm = ''sh'') \<and>
                               node_type (info c0) \<noteq> kDescriptorTypeScript then Inl ChildIsScriptOnly
                       else if nm \<noteq> ''wsh'' \<and> nm \<noteq> ''sh'' \<and>
                               node_type (info c0) \<noteq> kDescriptorTypeKey then Inl ChildIsKeyOnly
                       else if parent_name = ''tr'' \<and> nm = ''pkh'' then Inl TaprootPkhUnsupported
                       else
                         (case AnalyzeAll_gen T X nm
                                 (upd (\<lambda>i. i\<lparr>parent_kind := parent_kind (info n)\<rparr>) c0) of
                            Inl e \<Rightarrow> Inl e
                          | Inr c0' \<Rightarrow>
                              (let n1 = set_children [c0'] n in
                               if (nm = ''wpkh'' \<or> nm = ''wsh'') \<and> ExistUncompressedKey n1
                               then Inl UsingUncompressedPubkey else Inr n1))
                   | _ \<Rightarrow> Inl ChildNodeNum))
             of
               Inl e \<Rightarrow> Inl e
             | Inr n' \<Rightarrow> Inr (upd (\<lambda>i. i\<lparr>script_type := sd_type p_data\<rparr>) n')))"
  by pat_completeness auto

termination
proof (relation "measure (\<lambda>(T, X, parent_name, n). size n)", goal_cases)
  case 1
  then show ?case by simp
next
  case (2 T X parent_name n)
  then show ?case by (cases n) (auto simp: less_Suc_eq_le dest!: size_child_le)
next
  case (3 T X parent_name n)
  then show ?case by (cases n) (auto simp: size_upd)
next
  case (4 T X parent_name n)
  then show ?case by (cases n) (auto simp: size_upd)
qed

text \<open>
  Inside a tapleaf the call of \<^verbatim>\<open>AnalyzeScriptTree\<close> is out of reach: it belongs to \<open>tr\<close>,
  which passes the top-only check at depth 0 alone, and the nodes of a tapleaf have the
  depths 1, 2, 3, ... So the analysis of a tapleaf is \<open>AnalyzeAll_gen\<close> with an argument
  that is never called for a leaf of fewer than \<open>2 ^ 32 - 2\<close> nested parentheses, and
  \<^verbatim>\<open>AnalyzeAll\<close> is \<open>AnalyzeAll_gen\<close> with \<^verbatim>\<open>AnalyzeScriptTree\<close>.
\<close>

definition AnalyzeAll_leaf :: "externals \<Rightarrow> string \<Rightarrow> node \<Rightarrow> error + node" where
  "AnalyzeAll_leaf X parent_name n = AnalyzeAll_gen (\<lambda>c. Inl NestedScriptTree) X parent_name n"

text \<open>\<^verbatim>\<open>tree_node_.emplace(key, node)\<close> of the \<^verbatim>\<open>std::map\<close>: no effect when the key is
  there; the keys stay in the order of \<^verbatim>\<open>std::string\<close>, which no function here reads
  except through \<open>std_sort\<close>.\<close>

fun string_less :: "string \<Rightarrow> string \<Rightarrow> bool" where
  "string_less [] [] = False"
| "string_less [] (y # ys) = True"
| "string_less (x # xs) [] = False"
| "string_less (x # xs) (y # ys) =
     ((of_char x :: nat) < of_char y \<or> (x = y \<and> string_less xs ys))"

fun map_emplace :: "string \<Rightarrow> node \<Rightarrow> (string \<times> node) list \<Rightarrow> (string \<times> node) list" where
  "map_emplace k v [] = [(k, v)]"
| "map_emplace k v ((k', v') # rest) =
     (if k = k' then (k', v') # rest
      else if string_less k k' then (k, v) # (k', v') # rest
      else (k', v') # map_emplace k v rest)"

record tree_scan =
  ts_this :: node
  ts_script_depth :: "32 word"
  ts_offset :: nat
  ts_temp_name :: string

text \<open>A tapleaf from its text: the node, analysed, goes into \<open>tree_node_\<close> and
  \<open>child_node_\<close>.\<close>

definition add_tapleaf ::
  "externals \<Rightarrow> DescriptorNodeType \<Rightarrow> string \<Rightarrow> string \<Rightarrow> node \<Rightarrow> error + node" where
  "add_tapleaf X nt temp_name tapscript n =
     (let node0 = upd (\<lambda>i. i\<lparr> name := temp_name, node_type := nt, val := tapscript,
                               depth := 1, parent_kind := ''tr'' \<rparr>) new_node
      in case (if temp_name \<noteq> [] then AnalyzeChild tapscript 2 node0 else Inr node0) of
           Inl e \<Rightarrow> Inl e
         | Inr node1 \<Rightarrow>
             (case AnalyzeAll_leaf X ''tr'' node1 of
                Inl e \<Rightarrow> Inl e
              | Inr node2 \<Rightarrow>
                  Inr (Node (info n) (child_node n @ [node2])
                         (map_emplace tapscript node2 (tree_node n)))))"

definition AnalyzeScriptTree_body ::
  "externals \<Rightarrow> string \<Rightarrow> nat \<Rightarrow> tree_scan \<Rightarrow> error + tree_scan" where
  "AnalyzeScriptTree_body X desc idx st =
     (let str = desc ! idx in
      if str = CHR '' '' \<or> str = CHR ''{'' then
        (if ts_script_depth st = 0 then Inr (st\<lparr> ts_offset := ts_offset st + 1 \<rparr>) else Inr st)
      else if str = CHR '','' \<or> str = CHR ''}'' then
        (if ts_script_depth st = 0 then
           (let tapscript = substr desc (ts_offset st) (idx - ts_offset st) in
            if length tapscript \<ge> kByteData256Length * 2 then
              (case add_tapleaf X kDescriptorTypeKey (ts_temp_name st) tapscript (ts_this st) of
                 Inl e \<Rightarrow> Inl e
               | Inr n' \<Rightarrow> Inr (st\<lparr> ts_this := n', ts_offset := idx + 1, ts_temp_name := [] \<rparr>))
            else Inr (st\<lparr> ts_offset := ts_offset st + 1 \<rparr>))
         else Inr st)
      else if str = CHR ''('' then
        (let st1 = (if ts_script_depth st = 0
                    then st\<lparr> ts_temp_name := substr desc (ts_offset st) (idx - ts_offset st) \<rparr>
                    else st)
         in Inr (st1\<lparr> ts_script_depth := ts_script_depth st + 1 \<rparr>))
      else if str = CHR '')'' then
        (let sd = ts_script_depth st - 1; st0 = st\<lparr> ts_script_depth := sd \<rparr> in
         if sd = 0 then
           (let tapscript = substr desc (ts_offset st) (idx - ts_offset st + 1) in
            case add_tapleaf X kDescriptorTypeScript (ts_temp_name st) tapscript (ts_this st) of
              Inl e \<Rightarrow> Inl e
            | Inr n' \<Rightarrow> Inr (st0\<lparr> ts_this := n', ts_offset := idx + 1, ts_temp_name := [] \<rparr>))
         else Inr st0)
      else Inr st)"

definition AnalyzeScriptTree :: "externals \<Rightarrow> node \<Rightarrow> error + node" where
  "AnalyzeScriptTree X n =
     (let desc = val (info n) in
      case for_loop (length desc) (AnalyzeScriptTree_body X desc)
             \<lparr> ts_this = n, ts_script_depth = 0, ts_offset = 0, ts_temp_name = [] \<rparr> of
        Inl e \<Rightarrow> Inl e
      | Inr st \<Rightarrow>
          if tree_node (ts_this st) = [] then
            (if length desc \<ge> kByteData256Length * 2
             then add_tapleaf X kDescriptorTypeKey (ts_temp_name st) desc (ts_this st)
             else Inl TaprootEmptyScript)
          else Inr (ts_this st))"

definition AnalyzeAll :: "externals \<Rightarrow> string \<Rightarrow> node \<Rightarrow> error + node" where
  "AnalyzeAll X parent_name n = AnalyzeAll_gen (AnalyzeScriptTree X) X parent_name n"

subsection \<open>\<^verbatim>\<open>DescriptorNode::Parse\<close>, \<^verbatim>\<open>ToString\<close> and the class \<^verbatim>\<open>Descriptor\<close>\<close>

definition Parse :: "externals \<Rightarrow> string \<Rightarrow> error + node" where
  "Parse X output_descriptor =
     (case AnalyzeChild output_descriptor 0
             (upd (\<lambda>i. i\<lparr>node_type := kDescriptorTypeScript\<rparr>) new_node) of
        Inl e \<Rightarrow> Inl e
      | Inr node1 \<Rightarrow>
          (case AnalyzeAll X [] node1 of
             Inl e \<Rightarrow> Inl e
           | Inr node2 \<Rightarrow>
               (let list = replicate (unat (GetNeedArgumentNum node2)) ''0'' in
                case GetReference X node2 (Some list) None of
                  Inl e \<Rightarrow> Inl e
                | Inr _ \<Rightarrow> Inr node2)))"

text \<open>The children are rendered by \<^verbatim>\<open>child.ToString()\<close>, with the default argument of the
  declaration, \<^verbatim>\<open>append_checksum = true\<close>.\<close>

function ToString :: "node \<Rightarrow> bool \<Rightarrow> string" where
  "ToString n append_checksum =
     (let i = info n;
          result =
            (if name i = [] \<or> name i = ''miniscript'' then val i
             else if child_node n = [] then name i @ ''('' @ val i @ '')''
             else name i @ ''('' @
                  foldl (\<lambda>child_text child.
                           (if child_text \<noteq> [] then child_text @ '','' else child_text) @
                           ToString child True)
                    [] (child_node n) @ '')'')
      in if depth i = 0 \<and> append_checksum then
           (let cs = GenerateChecksum result in
            if cs \<noteq> [] then result @ ''#'' @ cs else result)
         else result)"
  by pat_completeness auto
termination
  by (relation "measure (\<lambda>(n, a). size n)") (auto dest!: size_child_le, case_tac n, auto)

text \<open>The class \<^verbatim>\<open>Descriptor\<close> holds the root node.\<close>

definition GetReferenceAll ::
  "externals \<Rightarrow> node \<Rightarrow> arguments \<Rightarrow> error + DescriptorScriptReference list" where
  "GetReferenceAll X root_node array_argument =
     (let copy_list = (case array_argument of None \<Rightarrow> [] | Some a \<Rightarrow> a) in
      case GetReferences X root_node (Some copy_list) None of
        Inl e \<Rightarrow> Inl e | Inr (refs, a) \<Rightarrow> Inr refs)"

definition GetLockingScriptAll :: "externals \<Rightarrow> node \<Rightarrow> arguments \<Rightarrow> error + Script list" where
  "GetLockingScriptAll X root_node array_argument =
     (case GetReferenceAll X root_node array_argument of
        Inl e \<Rightarrow> Inl e | Inr refs \<Rightarrow> Inr (map GetLockingScript refs))"

text \<open>\<^verbatim>\<open>Descriptor::GetLockingScript(const std::vector<std::string>&)\<close> and
  \<^verbatim>\<open>Descriptor::GetLockingScript()\<close>.\<close>

definition Descriptor_GetLockingScript :: "externals \<Rightarrow> node \<Rightarrow> string list \<Rightarrow> error + Script" where
  "Descriptor_GetLockingScript X root_node array_argument =
     (case GetLockingScriptAll X root_node (Some array_argument) of
        Inl e \<Rightarrow> Inl e
      | Inr [] \<Rightarrow> Inl OutOfRange
      | Inr (x # _) \<Rightarrow> Inr x)"

definition Descriptor_GetLockingScript0 :: "externals \<Rightarrow> node \<Rightarrow> error + Script" where
  "Descriptor_GetLockingScript0 X root_node =
     (if GetNeedArgumentNum root_node \<noteq> 0 then Inl EmptyArgument
      else Descriptor_GetLockingScript X root_node [])"

subsection \<open>A small library for the examples\<close>

text \<open>
  The examples below need the libraries at concrete inputs. \<open>X0\<close> is a library of toy
  keys: an extended key is any text whose characters 1 to 3 are \<open>pub\<close> or \<open>prv\<close>, its
  first character gives the BIP32 format (\<open>y\<close> for BIP49, \<open>z\<close> for BIP84), deriving appends
  the path to the text, and its public key is 02 followed by the last 32 characters of
  the text. Public keys are in hexadecimal, 33 bytes starting with 02 or 03 or 65 bytes
  starting with 04. There is no WIF, no key data and no miniscript in it.
\<close>

fun split_char :: "char \<Rightarrow> string \<Rightarrow> string \<Rightarrow> string list" where
  "split_char d [] acc = [acc]"
| "split_char d (c # cs) acc =
     (if c = d then acc # split_char d cs [] else split_char d cs (acc @ [c]))"

definition hex_val :: "char \<Rightarrow> nat option" where
  "hex_val c = find_char ''0123456789abcdef'' c"

fun hex_decode :: "string \<Rightarrow> bytes option" where
  "hex_decode [] = Some []"
| "hex_decode [c] = None"
| "hex_decode (a # b # rest) =
     (case (hex_val a, hex_val b, hex_decode rest) of
        (Some h, Some l, Some bs) \<Rightarrow> Some (of_nat (16 * h + l) # bs)
      | _ \<Rightarrow> None)"

definition hex_encode :: "bytes \<Rightarrow> string" where
  "hex_encode bs =
     concat (map (\<lambda>b. [''0123456789abcdef'' ! (unat b div 16), ''0123456789abcdef'' ! (unat b mod 16)]) bs)"

definition toy_pubkey :: "string \<Rightarrow> bytes" where
  "toy_pubkey s = 2 # take 32 (map (\<lambda>c. of_nat (of_char c)) (rev s) @ replicate 32 0)"

definition toy_format :: "string \<Rightarrow> Bip32FormatType" where
  "toy_format s = (if take 1 s = ''y'' then kBip49 else if take 1 s = ''z'' then kBip84 else kNormal)"

definition toy_xpub :: "string \<Rightarrow> ExtPubkey" where
  "toy_xpub s = \<lparr> xpub_ToString = s, xpub_IsValid = True, xpub_GetPubkey = toy_pubkey s,
      xpub_GetChildNum = 0, xpub_GetFormatType = toy_format s, xpub_GetPubTweakSum = [] \<rparr>"

definition toy_xprv :: "string \<Rightarrow> ExtPrivkey" where
  "toy_xprv s = \<lparr> xprv_ToString = s, xprv_GetExtPubkey = toy_xpub s, xprv_GetPubTweakSum = [] \<rparr>"

definition toy_is_extkey :: "string \<Rightarrow> string \<Rightarrow> bool" where
  "toy_is_extkey kind s = (length s > 4 \<and> substr s 1 3 = kind)"

definition toy_valid_pubkey :: "bytes \<Rightarrow> bool" where
  "toy_valid_pubkey bs =
     ((length bs = 33 \<and> (take 1 bs = [2] \<or> take 1 bs = [3])) \<or> (length bs = 65 \<and> take 1 bs = [4]))"

fun toy_serial :: "Script \<Rightarrow> bytes" where
  "toy_serial [] = []"
| "toy_serial (Op OP_CHECKSIG # r) = 0xac # toy_serial r"
| "toy_serial (Op OP_CHECKMULTISIG # r) = 0xae # toy_serial r"
| "toy_serial (Data bs # r) = of_nat (length bs) # bs @ toy_serial r"
| "toy_serial (Num k # r) = of_int (80 + k) # toy_serial r"
| "toy_serial (Other bs # r) = bs @ toy_serial r"

text \<open>Modelled from the spec: \<^verbatim>\<open>Pubkey::IsLarge\<close> is in cfdcore\_key.cpp, which is not among
  the sources. By section 4.6 of the specification the order it gives to \<open>sortedmulti\<close>
  is lexicographic and descending in the bytes of the public keys: it puts \<open>a\<close> in front
  of \<open>b\<close> when \<open>a\<close> is the greater.\<close>

fun bytes_less :: "bytes \<Rightarrow> bytes \<Rightarrow> bool" where
  "bytes_less [] [] = False"
| "bytes_less [] (y # ys) = True"
| "bytes_less (x # xs) [] = False"
| "bytes_less (x # xs) (y # ys) = (x < y \<or> (x = y \<and> bytes_less xs ys))"

definition IsLarge_spec :: "bytes \<Rightarrow> bytes \<Rightarrow> bool" where
  "IsLarge_spec a b = bytes_less b a"

definition X0 :: externals where
  "X0 = \<lparr>
     kArgumentBaseExtkey = ''base'',
     Split = (\<lambda>s d. split_char (hd d) s []),
     ByteData_hex = hex_decode,
     GetHex = hex_encode,
     Pubkey_IsValid = toy_valid_pubkey,
     Pubkey_IsCompress = (\<lambda>bs. length bs = 33),
     Pubkey_IsLarge = IsLarge_spec,
     Pubkey_hex = (\<lambda>s. case hex_decode s of
                          Some bs \<Rightarrow> if toy_valid_pubkey bs then Some bs else None
                        | None \<Rightarrow> None),
     SchnorrPubkey_bytes = (\<lambda>bs. if length bs = 32 then Some bs else None),
     SchnorrPubkey_hex = (\<lambda>s. case hex_decode s of
                                 Some bs \<Rightarrow> if length bs = 32 then Some bs else None
                               | None \<Rightarrow> None),
     SchnorrPubkey_FromPubkey = (\<lambda>bs. take 32 (tl bs)),
     SchnorrPubkey_CreatePubkey = (\<lambda>bs. 2 # bs),
     Privkey_HasWif = (\<lambda>s. None),
     Privkey_FromWif = (\<lambda>s nettype is_compressed. None),
     Privkey_IsValid = (\<lambda>bs. False),
     Privkey_GeneratePubkey = (\<lambda>bs is_compressed. []),
     ExtPubkey_parse = (\<lambda>s. if toy_is_extkey ''pub'' s then Some (toy_xpub s) else None),
     ExtPrivkey_parse = (\<lambda>s. if toy_is_extkey ''prv'' s then Some (toy_xprv s) else None),
     ExtPubkey_new = (\<lambda>s tweak. if toy_is_extkey ''pub'' s then Some (toy_xpub s) else None),
     ExtPubkey_DerivePubkey =
       (\<lambda>k path. if path = [] then None else Some (toy_xpub (xpub_ToString k @ ''/'' @ path))),
     ExtPrivkey_new = (\<lambda>s tweak. if toy_is_extkey ''prv'' s then Some (toy_xprv s) else None),
     ExtPrivkey_DerivePrivkey =
       (\<lambda>k path. if path = [] then None else Some (toy_xprv (xprv_ToString k @ ''/'' @ path))),
     KeyData_new = (\<lambda>s child_num has_schnorr. None),
     Script_hex = (\<lambda>s. map_option (\<lambda>bs. [Other bs]) (hex_decode s)),
     Script_bytes = (\<lambda>bs. [Other bs]),
     Script_GetHex = (\<lambda>sc. hex_encode (toy_serial sc)),
     Script_GetDataSize = (\<lambda>sc. length (toy_serial sc)),
     Address_GetLockingScript = (\<lambda>s. if s = [] then None else Some [Other (map (\<lambda>c. of_nat (of_char c)) s)]),
     CreateMultisigRedeemScript_throws = (\<lambda>reqnum pubkeys has_witness. False),
     CreateP2wshLockingScript = (\<lambda>sc. [Other (0 # 32 # take 32 (toy_serial sc @ replicate 32 0))]),
     CreateP2shLockingScript = (\<lambda>sc. [Other (0xa9 # 20 # take 20 (toy_serial sc @ replicate 20 0))]),
     CreateP2wpkhLockingScript = (\<lambda>pk. [Other (0 # 20 # take 20 pk)]),
     CreateP2pkhLockingScript = (\<lambda>pk. [Other (0x76 # 0xa9 # 20 # take 20 pk)]),
     TapBranch_empty = \<lparr> tb_ToString = [], tb_HasTapLeaf = False \<rparr>,
     TapBranch_FromString = (\<lambda>s. Some \<lparr> tb_ToString = s, tb_HasTapLeaf = (take 3 s = ''tl('') \<rparr>),
     TapBranch_ChangeTapLeaf = (\<lambda>b sc. b\<lparr> tb_HasTapLeaf := True \<rparr>),
     CreateTapScriptControl_tree = (\<lambda>pk b. Some [Other (0x51 # 32 # pk)]),
     CreateTapScriptControl_branch = (\<lambda>pk b. Some [Other (0x51 # 32 # pk)]),
     wally_descriptor_parse_miniscript = (\<lambda>text child_num flags buflen. None),
     kMaxScriptSize = 10000 \<rparr>"

subsection \<open>Nodes for the examples\<close>

text \<open>A number node, a key node as \<^verbatim>\<open>AnalyzeChild\<close> leaves it, a key node of an extended
  public key after \<^verbatim>\<open>AnalyzeKey\<close> (the second argument is \<open>need_arg_num_\<close>), and a script
  node.\<close>

definition ex_number :: "32 word \<Rightarrow> node" where
  "ex_number k = upd (\<lambda>i. i\<lparr>number := k, node_type := kDescriptorTypeNumber, depth := 1\<rparr>) new_node"

definition ex_key :: "string \<Rightarrow> node" where
  "ex_key v = upd (\<lambda>i. i\<lparr>val := v, node_type := kDescriptorTypeKey, depth := 1\<rparr>) new_node"

definition ex_xpub :: "string \<Rightarrow> 32 word \<Rightarrow> node" where
  "ex_xpub v need =
     upd (\<lambda>i. i\<lparr>val := v, key_info := v, base_extkey := v, need_arg_num := need,
                 node_type := kDescriptorTypeKey, key_type := kDescriptorKeyBip32, depth := 1\<rparr>)
       new_node"

definition ex_script :: "string \<Rightarrow> DescriptorScriptType \<Rightarrow> 32 word \<Rightarrow> node list \<Rightarrow> node" where
  "ex_script nm st dep cs =
     Node (new_info\<lparr>name := nm, node_type := kDescriptorTypeScript, script_type := st,
                    depth := dep\<rparr>) cs []"

definition ex_multi :: "32 word \<Rightarrow> nat \<Rightarrow> node" where
  "ex_multi k npk = ex_script ''multi'' kDescriptorScriptNull 1 (ex_number k # replicate npk (ex_key ''xpubA''))"

definition root_node :: node where
  "root_node = upd (\<lambda>i. i\<lparr>node_type := kDescriptorTypeScript\<rparr>) new_node"

definition zero_arguments :: "node \<Rightarrow> arguments" where
  "zero_arguments nd = Some (replicate (unat (GetNeedArgumentNum nd)) ''0'')"

definition ex_sortedmulti :: node where
  "ex_sortedmulti =
     ex_script ''sortedmulti'' kDescriptorScriptSortedMulti 0
       [ex_number 1, ex_xpub ''xpubA'' 0, ex_xpub ''xpubB'' 0]"

subsection \<open>Auxiliary functions of the proofs\<close>

text \<open>The reference of a key that reads no argument, and the public keys of a multisig
  node in the order of its script.\<close>

definition fixed_key :: "externals \<Rightarrow> node \<Rightarrow> error + DescriptorKeyReference" where
  "fixed_key X c = (case GetKeyReferences X c None of Inl e \<Rightarrow> Inl e | Inr (r, a) \<Rightarrow> Inr r)"

definition multisig_pubkeys :: "externals \<Rightarrow> DescriptorScriptType \<Rightarrow> DescriptorKeyReference list \<Rightarrow> bytes list" where
  "multisig_pubkeys X st keys =
     (if st = kDescriptorScriptSortedMulti
      then std_sort (Pubkey_IsLarge X) (map kr_pubkey keys) else map kr_pubkey keys)"

text \<open>For the loop of \<^verbatim>\<open>AnalyzeChild\<close>: the opening minus the closing brackets of a text;
  a text of which no suffix has more opening than closing brackets, as the text between
  two matching brackets and its suffixes are; and what holds of the locals before the
  index \<open>k\<close> as long as no \<open>#\<close> has been read: \<open>depth_work\<close> is \<open>depth\<close> plus the brackets that
  are open, \<open>offset\<close> is not beyond \<open>k\<close>, inside a bracket every position from \<open>offset\<close> on is
  inside it, a node that has a name other than \<open>addr\<close> and \<open>raw\<close> and no child yet is
  inside its bracket (when it had no such name at the start, \<open>named\<close>), and
  \<open>descriptor_main\<close> is empty.\<close>

definition net :: "string \<Rightarrow> int" where
  "net s = int (count_list s CHR ''('') - int (count_list s CHR '')'')"



section \<open>Properties\<close>


subsection \<open>Helper lemmas\<close>






lemma word_zero_unat: "(w :: 32 word) = 0 \<longleftrightarrow> \<not> 1 \<le> unat w"
proof -
  have "w = 0 \<longleftrightarrow> unat w = 0" by (rule unat_eq_0 [symmetric])
  then show ?thesis by linarith
qed

lemma multisig_num_checks_None:
  "multisig_num_checks parent_name cs = None \<longleftrightarrow>
     1 \<le> unat (number (info (hd cs))) \<and>
     unat (number (info (hd cs))) \<le> length cs - 1 \<and>
     length cs - 1 \<le> (if parent_name = ''wsh'' then kMaxMultisigPubkeyNum else 16)"
  unfolding multisig_num_checks_def Let_def word_zero_unat [of "number (info (hd cs))"]
  by (auto simp: kMaxMultisigPubkeyNum_def)

lemma find_multi:
  "find (\<lambda>d. ''multi'' = sd_name d) kDescriptorNodeScriptTable =
     Some \<lparr>sd_name = ''multi'', sd_type = kDescriptorScriptMulti, sd_top_only = False,
           sd_has_child = True, sd_multisig = True\<rparr>"
  by (simp add: kDescriptorNodeScriptTable_def)

lemma find_sortedmulti:
  "find (\<lambda>d. ''sortedmulti'' = sd_name d) kDescriptorNodeScriptTable =
     Some \<lparr>sd_name = ''sortedmulti'', sd_type = kDescriptorScriptSortedMulti, sd_top_only = False,
           sd_has_child = True, sd_multisig = True\<rparr>"
  by (simp add: kDescriptorNodeScriptTable_def)

lemma AnalyzeAll_multisig_fails:
  assumes nt: "node_type (info n) = kDescriptorTypeScript"
    and nm: "name (info n) = ''multi'' \<or> name (info n) = ''sortedmulti''"
    and chk: "multisig_num_checks parent_name (child_node n) = Some e"
  shows "\<exists>e'. AnalyzeAll_gen T X parent_name n = Inl e'"
proof -
  obtain p where p: "find (\<lambda>d. name (info n) = sd_name d) kDescriptorNodeScriptTable = Some p"
      "sd_multisig p" "\<not> sd_top_only p" "sd_has_child p"
    using nm find_multi find_sortedmulti by auto
  have ne: "name (info n) \<noteq> []" using nm by auto
  show ?thesis
    by (subst AnalyzeAll_gen.simps) (simp add: Let_def nt ne p chk)
qed

lemma takeWhile_stops:
  assumes "m < length xs" "\<not> P (xs ! m)"
  shows "length (takeWhile P xs) \<le> m"
proof (rule ccontr)
  assume "\<not> length (takeWhile P xs) \<le> m"
  then have m: "m < length (takeWhile P xs)" by simp
  then have "takeWhile P xs ! m = xs ! m" by (rule takeWhile_nth)
  moreover have "takeWhile P xs ! m \<in> set (takeWhile P xs)" using m by simp
  then have "P (takeWhile P xs ! m)" by (rule set_takeWhileD [THEN conjunct2])
  ultimately show False using assms(2) by simp
qed

lemma path_loop_index_le:
  assumes "1 \<le> i" "i < length list" "is_wildcard (list ! i)"
  shows "fst (path_loop list) \<le> i"
proof -
  have "i - 1 < length (tl list)" using assms by simp
  moreover have "tl list ! (i - 1) = list ! i"
    using assms by (cases list) (auto simp: nth_Cons')
  ultimately have "length (takeWhile (\<lambda>seg. \<not> is_wildcard seg) (tl list)) \<le> i - 1"
    using assms(3) by (intro takeWhile_stops) auto
  then show ?thesis using assms(1) by (simp add: path_loop_def Let_def)
qed

lemma path_loop_exact:
  assumes "\<forall>s \<in> set fixed. \<not> is_wildcard s" "is_wildcard w"
  shows "path_loop (key # fixed @ [w]) = (1 + length fixed, is_hardened_wildcard w, join_path fixed)"
proof -
  have "takeWhile (\<lambda>seg. \<not> is_wildcard seg) (fixed @ [w]) = fixed"
    using assms by (simp add: takeWhile_append2)
  then show ?thesis by (simp add: path_loop_def Let_def nth_append)
qed

lemma hardened_is_wildcard: "is_hardened_wildcard s \<Longrightarrow> is_wildcard s"
  by (auto simp: is_hardened_wildcard_def is_wildcard_def)

lemma AnalyzeKey_trailing:
  assumes top: "hdkey_top_of (strip_origin (val (info n))) = ''pub'' \<or>
                hdkey_top_of (strip_origin (val (info n))) = ''prv''"
    and w: "1 \<le> i" "i < j" "j < length (Split X (strip_origin (val (info n))) ''/'')"
       "is_wildcard (Split X (strip_origin (val (info n))) ''/'' ! i)"
  shows "AnalyzeKey X n = Inl WildcardNotAtEnd"
proof -
  let ?list = "Split X (strip_origin (val (info n))) ''/''"
  have "fst (path_loop ?list) \<le> i" using w by (intro path_loop_index_le) auto
  then have idx: "fst (path_loop ?list) + 1 < length ?list" using w by simp
  have len: "length ?list > 1" using w by simp
  then obtain key rest where list: "?list = key # rest" by (cases ?list) auto
  show ?thesis
    using top idx len list
    by (auto simp: AnalyzeKey_def Let_def split: prod.splits)
qed

lemma AnalyzeKey_hardened_xpub:
  assumes top: "hdkey_top_of (strip_origin (val (info n))) = ''pub''"
    and w: "1 \<le> i" "i < length (Split X (strip_origin (val (info n))) ''/'')"
       "is_hardened_wildcard (Split X (strip_origin (val (info n))) ''/'' ! i)"
  shows "AnalyzeKey X n = Inl WildcardNotAtEnd \<or> AnalyzeKey X n = Inl HardenedIsExtPrivkeyOnly"
proof -
  let ?list = "Split X (strip_origin (val (info n))) ''/''"
  let ?k = "fst (path_loop ?list)"
  have le: "?k \<le> i" using w by (intro path_loop_index_le) (auto dest: hardened_is_wildcard)
  have len: "length ?list > 1" using w by simp
  then obtain key rest where list: "?list = key # rest" by (cases ?list) auto
  show ?thesis
  proof (cases "?k + 1 < length ?list")
    case True
    then show ?thesis using top len list
      by (auto simp: AnalyzeKey_def Let_def split: prod.splits)
  next
    case False
    with le w have "?k = i" by simp
    then have "fst (snd (path_loop ?list))" using w
      by (simp add: path_loop_def Let_def)
    then show ?thesis using top len list False
      by (auto simp: AnalyzeKey_def Let_def split: prod.splits)
  qed
qed

lemma AnalyzeKey_hardened_xprv:
  assumes top: "hdkey_top_of (strip_origin (val (info n))) = ''prv''"
    and list: "Split X (strip_origin (val (info n))) ''/'' = key # fixed @ [w]"
    and w: "is_hardened_wildcard w" "\<forall>s \<in> set fixed. \<not> is_wildcard s"
    and lib: "ExtPrivkey_parse X key = Some k0"
       "join_path fixed \<noteq> [] \<longrightarrow> ExtPrivkey_DerivePrivkey X k0 (join_path fixed) \<noteq> None"
  shows "\<exists>n'. AnalyzeKey X n = Inr n' \<and> key_type (info n') = kDescriptorKeyBip32Priv"
proof -
  have pl: "path_loop (key # fixed @ [w]) = (1 + length fixed, True, join_path fixed)"
    using path_loop_exact [of fixed w key] w hardened_is_wildcard by auto
  show ?thesis
    using top list pl lib
    by (auto simp: AnalyzeKey_def Let_def lib_def upd_def split: prod.splits option.splits)
qed

lemma bytes_less_irrefl: "\<not> bytes_less a a"
  by (induction a) auto

lemma bytes_less_trans: "bytes_less a b \<Longrightarrow> bytes_less b c \<Longrightarrow> bytes_less a c"
proof (induction a b arbitrary: c rule: bytes_less.induct)
  case (2 y ys)
  then show ?case by (cases c) auto
next
  case (4 x xs y ys)
  then show ?case by (cases c) auto
qed auto

lemma bytes_less_total: "\<not> bytes_less a b \<Longrightarrow> \<not> bytes_less b a \<Longrightarrow> a = b"
  by (induction a b rule: bytes_less.induct) auto

lemma mset_sort_insert: "mset (sort_insert cmp x ys) = add_mset x (mset ys)"
  by (induction ys) auto

lemma mset_std_sort: "mset (std_sort cmp xs) = mset xs"
  by (induction xs) (auto simp: std_sort_def mset_sort_insert)

lemma set_sort_insert: "set (sort_insert cmp x ys) = insert x (set ys)"
  by (induction ys) auto

lemma sorted_sort_insert:
  assumes "sorted_wrt (\<lambda>a b. \<not> bytes_less a b) ys"
  shows "sorted_wrt (\<lambda>a b. \<not> bytes_less a b) (sort_insert IsLarge_spec x ys)"
  using assms
proof (induction ys)
  case Nil
  then show ?case by simp
next
  case (Cons y ys)
  show ?case
  proof (cases "IsLarge_spec y x")
    case True
    then have xy: "bytes_less x y" by (simp add: IsLarge_spec_def)
    then have "\<not> bytes_less y x" using bytes_less_trans bytes_less_irrefl by blast
    then show ?thesis using True Cons by (auto simp: set_sort_insert)
  next
    case False
    then have nxy: "\<not> bytes_less x y" by (simp add: IsLarge_spec_def)
    have "\<not> bytes_less x b" if "b \<in> set ys" for b
    proof
      assume "bytes_less x b"
      moreover have "\<not> bytes_less y b" using Cons.prems that by simp
      ultimately show False using nxy bytes_less_trans bytes_less_total by metis
    qed
    then show ?thesis using False nxy Cons.prems by auto
  qed
qed

lemma sorted_std_sort:
  "sorted_wrt (\<lambda>a b. \<not> bytes_less a b) (std_sort IsLarge_spec xs)"
  by (induction xs) (auto simp: std_sort_def sorted_sort_insert)

lemma descending_unique:
  assumes "sorted_wrt (\<lambda>a b. \<not> bytes_less a b) xs" "sorted_wrt (\<lambda>a b. \<not> bytes_less a b) ys"
    "mset xs = mset ys"
  shows "xs = ys"
  using assms
proof (induction xs arbitrary: ys)
  case Nil
  then show ?case by simp
next
  case (Cons x xs)
  then obtain y ys' where ys: "ys = y # ys'" by (cases ys) auto
  have "x \<in> set ys" using Cons.prems(3) by (metis list.set_intros(1) set_mset_mset)
  then have 1: "\<not> bytes_less y x" using Cons.prems(2) ys bytes_less_irrefl by auto
  have "y \<in> set (x # xs)" using Cons.prems(3) ys by (metis list.set_intros(1) set_mset_mset)
  then have 2: "\<not> bytes_less x y" using Cons.prems(1) bytes_less_irrefl by auto
  have "x = y" using 1 2 bytes_less_total by blast
  then show ?case using Cons ys by auto
qed

lemma std_sort_perm:
  "mset xs = mset ys \<Longrightarrow> std_sort IsLarge_spec xs = std_sort IsLarge_spec ys"
  by (intro descending_unique sorted_std_sort) (simp add: mset_std_sort)

lemma GetReferences_multisig:
  assumes nt: "node_type (info n) = kDescriptorTypeScript"
    and st: "script_type (info n) = kDescriptorScriptMulti \<or> script_type (info n) = kDescriptorScriptSortedMulti"
    and ok: "GetReferences X n args parent = Inr (refs, args')"
  shows "\<exists>c0 cs keys.
           child_node n = c0 # cs \<and>
           multisig_keys X cs (entry_arguments n args) = Inr (keys, args') \<and>
           refs = [Reference_keys
                     ([Num (uint (number (info c0)))] @
                      map Data (if script_type (info n) = kDescriptorScriptSortedMulti
                                then std_sort (Pubkey_IsLarge X) (map kr_pubkey keys)
                                else map kr_pubkey keys) @
                      [Num (int (length keys)), Op OP_CHECKMULTISIG])
                     (script_type (info n)) keys (number (info c0))]"
proof (cases "child_node n")
  case Nil
  then show ?thesis using nt st ok
    by (subst (asm) GetReferences.simps) (auto simp: Let_def)
next
  case (Cons c0 cs)
  show ?thesis
  proof (cases "multisig_keys X cs (entry_arguments n args)")
    case (Inl e)
    then show ?thesis using nt st ok Cons
      by (subst (asm) GetReferences.simps) (auto simp: Let_def)
  next
    case (Inr p)
    obtain keys a where p: "p = (keys, a)" by (cases p)
    have len: "length (std_sort (Pubkey_IsLarge X) (map kr_pubkey keys)) = length keys"
      using mset_std_sort [of "Pubkey_IsLarge X" "map kr_pubkey keys", THEN mset_eq_length] by simp
    show ?thesis using nt st ok Cons Inr p len
      by (subst (asm) GetReferences.simps)
         (auto simp: Let_def CreateMultisigRedeemScript_def split: if_splits)
  qed
qed

lemma combo_references:
  assumes "script_type (info n) = kDescriptorScriptCombo" "bip32_type_of r = Inr t"
  shows "key_script_references X n parent r =
     Inr ((if Pubkey_IsCompress X (kr_pubkey r) \<and> t \<noteq> kBip49
           then [Reference_keys (CreateP2wpkhLockingScript X (kr_pubkey r)) kDescriptorScriptCombo [r] 0]
           else []) @
          (if Pubkey_IsCompress X (kr_pubkey r) \<and> t \<noteq> kBip84
           then [Reference_child
                   (CreateP2shLockingScript X
                      (if t \<noteq> kBip49 then CreateP2wpkhLockingScript X (kr_pubkey r) else []))
                   kDescriptorScriptCombo
                   (Reference_keys
                      (if t \<noteq> kBip49 then CreateP2wpkhLockingScript X (kr_pubkey r) else [])
                      kDescriptorScriptWpkh [r] 0)]
           else []) @
          (if t = kNormal
           then [Reference_keys (CreateP2pkhLockingScript X (kr_pubkey r)) kDescriptorScriptCombo [r] 0,
                 Reference_keys [Data (kr_pubkey r), Op OP_CHECKSIG] kDescriptorScriptCombo [r] 0]
           else []))"
  using assms by (auto simp: key_script_references_def Let_def)


subsection \<open>The claims\<close>

text \<open>
  \<^bold>\<open>C9.\<close> A node \<open>multi\<close> or \<open>sortedmulti\<close> with the required count \<open>k\<close> (the number of
  its first child) and \<open>n\<close> public keys (its other children): the analysis fails unless
  \<open>1 \<le> k \<le> n\<close>, it fails when \<open>n\<close> is above the limit, 20 under the parent \<open>wsh\<close>
  and 16 under any other, and within these bounds the checks on the counts pass.
\<close>

theorem multisig_count_bounds:
  assumes "node_type (info nd) = kDescriptorTypeScript"
    and "name (info nd) = ''multi'' \<or> name (info nd) = ''sortedmulti''"
  defines "k \<equiv> unat (number (info (hd (child_node nd))))"
    and "n \<equiv> length (child_node nd) - 1"
  shows "(\<not> (1 \<le> k \<and> k \<le> n) \<longrightarrow> (\<exists>e. AnalyzeAll X parent_name nd = Inl e)) \<and>
         ((if parent_name = ''wsh'' then kMaxMultisigPubkeyNum else 16) < n \<longrightarrow>
            (\<exists>e. AnalyzeAll X parent_name nd = Inl e)) \<and>
         (1 \<le> k \<and> k \<le> n \<and> n \<le> (if parent_name = ''wsh'' then kMaxMultisigPubkeyNum else 16) \<longrightarrow>
            multisig_num_checks parent_name (child_node nd) = None) \<and>
         kMaxMultisigPubkeyNum = 20"
proof -
  have fails: "\<exists>e. AnalyzeAll X parent_name nd = Inl e"
    if "multisig_num_checks parent_name (child_node nd) \<noteq> None"
  proof -
    from that obtain e where "multisig_num_checks parent_name (child_node nd) = Some e" by auto
    from AnalyzeAll_multisig_fails [OF assms(1,2) this] show ?thesis
      by (simp add: AnalyzeAll_def)
  qed
  have iff: "multisig_num_checks parent_name (child_node nd) = None \<longleftrightarrow>
      1 \<le> k \<and> k \<le> n \<and> n \<le> (if parent_name = ''wsh'' then kMaxMultisigPubkeyNum else 16)"
    unfolding k_def n_def by (rule multisig_num_checks_None)
  have 1: "\<not> (1 \<le> k \<and> k \<le> n) \<longrightarrow> (\<exists>e. AnalyzeAll X parent_name nd = Inl e)"
    using fails iff by blast
  have 2: "(if parent_name = ''wsh'' then kMaxMultisigPubkeyNum else 16) < n \<longrightarrow>
            (\<exists>e. AnalyzeAll X parent_name nd = Inl e)"
    using fails iff by (meson not_le)
  have 3: "1 \<le> k \<and> k \<le> n \<and> n \<le> (if parent_name = ''wsh'' then kMaxMultisigPubkeyNum else 16) \<longrightarrow>
            multisig_num_checks parent_name (child_node nd) = None"
    using iff by blast
  show ?thesis using 1 2 3 by (simp add: kMaxMultisigPubkeyNum_def)
qed

lemma ex_multi_facts:
  "node_type (info (ex_multi k npk)) = kDescriptorTypeScript"
  "name (info (ex_multi k npk)) = ''multi''"
  "unat (number (info (hd (child_node (ex_multi k npk))))) = unat k"
  "length (child_node (ex_multi k npk)) - 1 = npk"
  by (simp_all add: ex_multi_def ex_script_def ex_number_def ex_key_def upd_def new_node_def new_info_def)

theorem multisig_count_bounds_witness:
  "(\<exists>e. AnalyzeAll X0 [] (ex_multi 3 2) = Inl e) \<and>
   (\<exists>e. AnalyzeAll X0 ''wsh'' (ex_multi 1 21) = Inl e) \<and>
   multisig_num_checks ''wsh'' (child_node (ex_multi 2 20)) = None"
proof -
  note f = ex_multi_facts(1) disjI1 [OF ex_multi_facts(2)]
  have u: "unat (3 :: 32 word) = 3" "unat (1 :: 32 word) = 1" "unat (2 :: 32 word) = 2"
    by simp_all
  have 1: "\<exists>e. AnalyzeAll X0 [] (ex_multi 3 2) = Inl e"
    using multisig_count_bounds [OF f, of 3 2 X0 "[]"]
    unfolding ex_multi_facts u by simp
  have 2: "\<exists>e. AnalyzeAll X0 ''wsh'' (ex_multi 1 21) = Inl e"
    using multisig_count_bounds [OF f, of 1 21 X0 "''wsh''"]
    unfolding ex_multi_facts u kMaxMultisigPubkeyNum_def by simp
  have 3: "multisig_num_checks ''wsh'' (child_node (ex_multi 2 20)) = None"
    using multisig_count_bounds [OF f, of 2 20 X0 "''wsh''"]
    unfolding ex_multi_facts u kMaxMultisigPubkeyNum_def by simp
  show ?thesis using 1 2 3 by blast
qed

text \<open>
  \<^bold>\<open>C8.\<close> A key whose characters 1 to 3 are \<open>pub\<close> or \<open>prv\<close>, with the segments \<open>list\<close> of
  its path: when a wildcard segment \<open>*\<close>, \<open>*'\<close> or \<open>*h\<close> is followed by another segment,
  \<^verbatim>\<open>AnalyzeKey\<close> fails ("A '*' can only be specified at the end."); when a hardened
  wildcard is a segment of an extended public key, it fails (with that message or
  "hardened is extPrivkey only."); a hardened wildcard as the last segment of an
  extended private key, after segments that are no wildcards, is accepted when the
  library accepts the key and the path before the wildcard.
\<close>

theorem wildcard_placement:
  fixes X :: externals and nd :: node
  assumes "hdkey_top_of (strip_origin (val (info nd))) = ''pub'' \<or>
           hdkey_top_of (strip_origin (val (info nd))) = ''prv''"
  defines "list \<equiv> Split X (strip_origin (val (info nd))) ''/''"
  shows "((\<exists>i j. 1 \<le> i \<and> i < j \<and> j < length list \<and> is_wildcard (list ! i)) \<longrightarrow>
            AnalyzeKey X nd = Inl WildcardNotAtEnd) \<and>
         (hdkey_top_of (strip_origin (val (info nd))) = ''pub'' \<and>
          (\<exists>i. 1 \<le> i \<and> i < length list \<and> is_hardened_wildcard (list ! i)) \<longrightarrow>
            AnalyzeKey X nd = Inl WildcardNotAtEnd \<or>
            AnalyzeKey X nd = Inl HardenedIsExtPrivkeyOnly) \<and>
         (\<forall>key fixed w k0.
            hdkey_top_of (strip_origin (val (info nd))) = ''prv'' \<and>
            list = key # fixed @ [w] \<and> is_hardened_wildcard w \<and>
            (\<forall>s \<in> set fixed. \<not> is_wildcard s) \<and>
            ExtPrivkey_parse X key = Some k0 \<and>
            (join_path fixed \<noteq> [] \<longrightarrow> ExtPrivkey_DerivePrivkey X k0 (join_path fixed) \<noteq> None) \<longrightarrow>
            (\<exists>n'. AnalyzeKey X nd = Inr n' \<and> key_type (info n') = kDescriptorKeyBip32Priv))"
proof (intro conjI impI allI)
  assume "\<exists>i j. 1 \<le> i \<and> i < j \<and> j < length list \<and> is_wildcard (list ! i)"
  then obtain i j where "1 \<le> i" "i < j" "j < length list" "is_wildcard (list ! i)" by blast
  then show "AnalyzeKey X nd = Inl WildcardNotAtEnd"
    unfolding list_def using assms(1) by (intro AnalyzeKey_trailing)
next
  assume a: "hdkey_top_of (strip_origin (val (info nd))) = ''pub'' \<and>
          (\<exists>i. 1 \<le> i \<and> i < length list \<and> is_hardened_wildcard (list ! i))"
  then obtain i where "1 \<le> i" "i < length list" "is_hardened_wildcard (list ! i)" by blast
  then show "AnalyzeKey X nd = Inl WildcardNotAtEnd \<or>
             AnalyzeKey X nd = Inl HardenedIsExtPrivkeyOnly"
    unfolding list_def using a by (intro AnalyzeKey_hardened_xpub) auto
next
  fix key fixed w k0
  assume a: "hdkey_top_of (strip_origin (val (info nd))) = ''prv'' \<and>
            list = key # fixed @ [w] \<and> is_hardened_wildcard w \<and>
            (\<forall>s \<in> set fixed. \<not> is_wildcard s) \<and>
            ExtPrivkey_parse X key = Some k0 \<and>
            (join_path fixed \<noteq> [] \<longrightarrow> ExtPrivkey_DerivePrivkey X k0 (join_path fixed) \<noteq> None)"
  show "\<exists>n'. AnalyzeKey X nd = Inr n' \<and> key_type (info n') = kDescriptorKeyBip32Priv"
    by (rule AnalyzeKey_hardened_xprv [of nd X key fixed w k0])
       (use a in \<open>simp_all add: list_def\<close>)
qed

lemma ex_key_val: "val (info (ex_key v)) = v"
  by (simp add: ex_key_def upd_def new_node_def new_info_def)

lemma ex_key_tops:
  "hdkey_top_of (strip_origin ''xpubA/*/1'') = ''pub''"
  "hdkey_top_of (strip_origin ''xpubA/0/*h'') = ''pub''"
  "hdkey_top_of (strip_origin ''xprvA/0/*h'') = ''prv''"
  by (simp_all add: strip_origin_def hdkey_top_of_def substr_def)

lemma ex_key_splits:
  "Split X0 (strip_origin ''xpubA/*/1'') ''/'' = [''xpubA'', ''*'', ''1'']"
  "Split X0 (strip_origin ''xpubA/0/*h'') ''/'' = [''xpubA'', ''0'', ''*h'']"
  "Split X0 (strip_origin ''xprvA/0/*h'') ''/'' = [''xprvA'', ''0'', ''*h'']"
  by (simp_all add: strip_origin_def X0_def)

theorem wildcard_placement_witness:
  "AnalyzeKey X0 (ex_key ''xpubA/*/1'') = Inl WildcardNotAtEnd \<and>
   (AnalyzeKey X0 (ex_key ''xpubA/0/*h'') = Inl WildcardNotAtEnd \<or>
    AnalyzeKey X0 (ex_key ''xpubA/0/*h'') = Inl HardenedIsExtPrivkeyOnly) \<and>
   (\<exists>n'. AnalyzeKey X0 (ex_key ''xprvA/0/*h'') = Inr n' \<and>
         key_type (info n') = kDescriptorKeyBip32Priv)"
proof -
  have 1: "AnalyzeKey X0 (ex_key ''xpubA/*/1'') = Inl WildcardNotAtEnd"
  proof -
    have "\<exists>i j. 1 \<le> i \<and> i < j \<and> j < length [''xpubA'', ''*'', ''1''] \<and>
            is_wildcard ([''xpubA'', ''*'', ''1''] ! i)"
      by (intro exI [of _ 1] exI [of _ 2]) (simp add: is_wildcard_def)
    then show ?thesis
      using wildcard_placement [of "ex_key ''xpubA/*/1''" X0]
      unfolding ex_key_val ex_key_tops ex_key_splits by blast
  qed
  have 2: "AnalyzeKey X0 (ex_key ''xpubA/0/*h'') = Inl WildcardNotAtEnd \<or>
           AnalyzeKey X0 (ex_key ''xpubA/0/*h'') = Inl HardenedIsExtPrivkeyOnly"
  proof -
    have "\<exists>i. 1 \<le> i \<and> i < length [''xpubA'', ''0'', ''*h''] \<and>
            is_hardened_wildcard ([''xpubA'', ''0'', ''*h''] ! i)"
      by (intro exI [of _ 2]) (simp add: is_hardened_wildcard_def)
    then show ?thesis
      using wildcard_placement [of "ex_key ''xpubA/0/*h''" X0]
      unfolding ex_key_val ex_key_tops ex_key_splits by blast
  qed
  have 3: "\<exists>n'. AnalyzeKey X0 (ex_key ''xprvA/0/*h'') = Inr n' \<and>
         key_type (info n') = kDescriptorKeyBip32Priv"
  proof -
    have a: "[''xprvA'', ''0'', ''*h''] = ''xprvA'' # [''0''] @ [''*h'']" by simp
    have b: "is_hardened_wildcard ''*h''" "\<forall>s \<in> set [''0'']. \<not> is_wildcard s"
      by (simp_all add: is_hardened_wildcard_def is_wildcard_def)
    have c: "ExtPrivkey_parse X0 ''xprvA'' = Some (toy_xprv ''xprvA'')"
      by (simp add: X0_def toy_is_extkey_def substr_def)
    have d: "ExtPrivkey_DerivePrivkey X0 (toy_xprv ''xprvA'') (join_path [''0'']) \<noteq> None"
      by (simp add: X0_def)
    show ?thesis
      using wildcard_placement [of "ex_key ''xprvA/0/*h''" X0, THEN conjunct2, THEN conjunct2,
          THEN spec, THEN spec, THEN spec, THEN spec, of "''xprvA''" "[''0'']" "''*h''" "toy_xprv ''xprvA''"]
      unfolding ex_key_val ex_key_tops ex_key_splits using a b c d by blast
  qed
  show ?thesis using 1 2 3 by blast
qed

text \<open>
  \<^bold>\<open>C10.\<close> \<^verbatim>\<open>Parse\<close> evaluates the tree it has analysed, with the argument "0" for every
  wildcard: when it returns a node, \<^verbatim>\<open>GetReference\<close> on that node with these arguments
  returns a reference; and when the analysis succeeds and that evaluation fails,
  \<^verbatim>\<open>Parse\<close> fails with the error of the evaluation and returns no node.
\<close>

theorem parse_evaluates_at_zero:
  "(Parse X d = Inr nd \<longrightarrow>
      (\<exists>n1. AnalyzeChild d 0 root_node = Inr n1 \<and> AnalyzeAll X [] n1 = Inr nd \<and>
            (\<exists>r. GetReference X nd (zero_arguments nd) None = Inr r))) \<and>
   (\<forall>n1 n2 e.
      AnalyzeChild d 0 root_node = Inr n1 \<and> AnalyzeAll X [] n1 = Inr n2 \<and>
      GetReference X n2 (zero_arguments n2) None = Inl e
      \<longrightarrow> Parse X d = Inl e)"
  by (auto simp: Parse_def Let_def root_node_def zero_arguments_def split: sum.splits)

lemma ex_parse_ok:
  "(case Parse X0 ''wsh(multi(2,xpubA/0/*,xpubB/1/*))'' of Inr nd \<Rightarrow> True | Inl e \<Rightarrow> False)"
  by code_simp

lemma ex_parse_mismatch:
  "(case AnalyzeChild ''pkh(ypubA)'' 0 root_node of
      Inr n1 \<Rightarrow>
        (case AnalyzeAll X0 [] n1 of
           Inr n2 \<Rightarrow> GetReference X0 n2 (zero_arguments n2) None = Inl PkhBip32Format
         | Inl e \<Rightarrow> False)
    | Inl e \<Rightarrow> False)"
  by code_simp

theorem parse_evaluates_at_zero_witness:
  "(\<exists>nd r. Parse X0 ''wsh(multi(2,xpubA/0/*,xpubB/1/*))'' = Inr nd \<and>
           GetReference X0 nd (zero_arguments nd) None = Inr r) \<and>
   Parse X0 ''pkh(ypubA)'' = Inl PkhBip32Format"
proof -
  obtain nd where nd: "Parse X0 ''wsh(multi(2,xpubA/0/*,xpubB/1/*))'' = Inr nd"
    using ex_parse_ok by (cases "Parse X0 ''wsh(multi(2,xpubA/0/*,xpubB/1/*))''") auto
  then have 1: "\<exists>r. GetReference X0 nd (zero_arguments nd) None = Inr r"
    using parse_evaluates_at_zero [of X0 "''wsh(multi(2,xpubA/0/*,xpubB/1/*))''" nd] by blast
  obtain n1 n2 where n: "AnalyzeChild ''pkh(ypubA)'' 0 root_node = Inr n1"
      "AnalyzeAll X0 [] n1 = Inr n2"
      "GetReference X0 n2 (zero_arguments n2) None = Inl PkhBip32Format"
    using ex_parse_mismatch
    by (cases "AnalyzeChild ''pkh(ypubA)'' 0 root_node";
        cases "AnalyzeAll X0 [] (projr (AnalyzeChild ''pkh(ypubA)'' 0 root_node))") auto
  have 2: "Parse X0 ''pkh(ypubA)'' = Inl PkhBip32Format"
    using parse_evaluates_at_zero [of X0 "''pkh(ypubA)''" nd] n by blast
  show ?thesis using nd 1 2 by blast
qed

text \<open>
  \<^bold>\<open>C5.\<close> The descriptor \<open>combo(ypubA)\<close>, a compressed key of the BIP49 format, parses, and
  its one locking script is \<^verbatim>\<open>CreateP2shLockingScript\<close> of the empty script: the branch
  "p2sh-p2wpkh" wraps the local \<open>locking_script\<close>, which the skipped branch "p2wpkh" has
  not assigned.
\<close>

theorem combo_bip49_wraps_empty_script:
  "(case Parse X0 ''combo(ypubA)'' of
      Inr nd \<Rightarrow> GetLockingScriptAll X0 nd None
    | Inl e \<Rightarrow> Inl e)
   = Inr [CreateP2shLockingScript X0 []]"
  by code_simp

lemma multisig_keys_length_aux:
  "foldM (\<lambda>c (keys, a). case GetKeyReferences X c a of
              Inl e \<Rightarrow> Inl e | Inr (key_ref, a') \<Rightarrow> Inr (keys @ [key_ref], a'))
     cs (ks, a0) = Inr (keys, a1) \<Longrightarrow> length keys = length ks + length cs"
proof (induction cs arbitrary: ks a0)
  case Nil
  then show ?case by simp
next
  case (Cons c cs)
  then show ?case
    by (cases "GetKeyReferences X c a0") (auto split: prod.splits)
qed

lemma multisig_keys_length:
  "multisig_keys X cs a0 = Inr (keys, a1) \<Longrightarrow> length keys = length cs"
  unfolding multisig_keys_def using multisig_keys_length_aux [of X cs "[]" a0 keys a1] by simp

text \<open>
  \<^bold>\<open>C1.\<close> When \<^verbatim>\<open>GetReferences\<close> returns for a node \<open>sortedmulti\<close> with the first child \<open>c0\<close>
  (the number \<open>k\<close>) and the key children \<open>cs\<close>, it has derived one key reference for each
  child of \<open>cs\<close>, in their order, and its one locking script is \<open>k\<close>, the public keys of
  these references sorted, their number and \<^verbatim>\<open>OP_CHECKMULTISIG\<close>; with the order that
  the specification gives to \<^verbatim>\<open>Pubkey::IsLarge\<close>, sorted means lexicographically
  descending in the bytes.
\<close>

theorem sortedmulti_sorts_descending:
  assumes "node_type (info nd) = kDescriptorTypeScript"
    and "script_type (info nd) = kDescriptorScriptSortedMulti"
    and "GetReferences X nd args parent = Inr (refs, args')"
    and "Pubkey_IsLarge X = IsLarge_spec"
  shows "\<exists>c0 cs keys sorted_keys.
           child_node nd = c0 # cs \<and>
           multisig_keys X cs (entry_arguments nd args) = Inr (keys, args') \<and>
           length keys = length cs \<and>
           mset sorted_keys = mset (map kr_pubkey keys) \<and>
           sorted_wrt (\<lambda>a b. \<not> bytes_less a b) sorted_keys \<and>
           map GetLockingScript refs =
             [[Num (uint (number (info c0)))] @ map Data sorted_keys @
              [Num (int (length cs)), Op OP_CHECKMULTISIG]]"
proof -
  obtain c0 cs keys where *: "child_node nd = c0 # cs"
      "multisig_keys X cs (entry_arguments nd args) = Inr (keys, args')"
      "refs = [Reference_keys
                     ([Num (uint (number (info c0)))] @
                      map Data (std_sort (Pubkey_IsLarge X) (map kr_pubkey keys)) @
                      [Num (int (length keys)), Op OP_CHECKMULTISIG])
                     (script_type (info nd)) keys (number (info c0))]"
    using GetReferences_multisig [OF assms(1) disjI2 [OF assms(2)] assms(3)] assms(2) by auto
  have len: "length keys = length cs" using *(2) by (rule multisig_keys_length)
  have "map GetLockingScript refs =
          [[Num (uint (number (info c0)))] @
           map Data (std_sort IsLarge_spec (map kr_pubkey keys)) @
           [Num (int (length cs)), Op OP_CHECKMULTISIG]]"
    using *(3) len assms(4) by (simp add: GetLockingScript_def Reference_keys_def)
  then show ?thesis
    using *(1,2) len mset_std_sort [of IsLarge_spec "map kr_pubkey keys"]
      sorted_std_sort [of "map kr_pubkey keys"]
    by (intro exI [of _ c0] exI [of _ cs] exI [of _ keys]
          exI [of _ "std_sort IsLarge_spec (map kr_pubkey keys)"] conjI)
qed

lemma ex_sortedmulti_eval:
  "(case GetReferences X0 ex_sortedmulti (Some []) None of
      Inr (refs, a) \<Rightarrow>
        map GetLockingScript refs =
          [[Num 1, Data (toy_pubkey ''xpubB''), Data (toy_pubkey ''xpubA''), Num 2,
            Op OP_CHECKMULTISIG]]
    | Inl e \<Rightarrow> False)"
  by code_simp

theorem sortedmulti_sorts_descending_witness:
  "\<exists>refs args' sorted_keys.
     GetReferences X0 ex_sortedmulti (Some []) None = Inr (refs, args') \<and>
     sorted_wrt (\<lambda>a b. \<not> bytes_less a b) sorted_keys \<and>
     map GetLockingScript refs =
       [[Num 1] @ map Data sorted_keys @ [Num 2, Op OP_CHECKMULTISIG]]"
proof -
  obtain refs args' where ok: "GetReferences X0 ex_sortedmulti (Some []) None = Inr (refs, args')"
    using ex_sortedmulti_eval
    by (cases "GetReferences X0 ex_sortedmulti (Some []) None") auto
  have 1: "node_type (info ex_sortedmulti) = kDescriptorTypeScript"
    and 2: "script_type (info ex_sortedmulti) = kDescriptorScriptSortedMulti"
    and 3: "child_node ex_sortedmulti = [ex_number 1, ex_xpub ''xpubA'' 0, ex_xpub ''xpubB'' 0]"
    by (simp_all add: ex_sortedmulti_def ex_script_def new_info_def)
  have 4: "Pubkey_IsLarge X0 = IsLarge_spec" by (simp add: X0_def)
  have 5: "uint (number (info (ex_number 1))) = 1"
    by (simp add: ex_number_def upd_def new_node_def new_info_def)
  from sortedmulti_sorts_descending [OF 1 2 ok 4]
  obtain c0 cs keys sorted_keys where *: "child_node ex_sortedmulti = c0 # cs"
      "sorted_wrt (\<lambda>a b. \<not> bytes_less a b) sorted_keys"
      "map GetLockingScript refs =
             [[Num (uint (number (info c0)))] @ map Data sorted_keys @
              [Num (int (length cs)), Op OP_CHECKMULTISIG]]"
    by (elim exE conjE)
  from *(1) 3 have "c0 = ex_number 1" "length cs = 2" by auto
  with *(3) 5 have "map GetLockingScript refs =
       [[Num 1] @ map Data sorted_keys @ [Num 2, Op OP_CHECKMULTISIG]]" by simp
  with ok *(2) show ?thesis
    by (intro exI [of _ refs] exI [of _ args'] exI [of _ sorted_keys] conjI)
qed

lemma GetKeyReferences_fixed:
  assumes "need_arg_num (info c) = 0"
  shows "GetKeyReferences X c a = (case fixed_key X c of Inl e \<Rightarrow> Inl e | Inr r \<Rightarrow> Inr (r, a))"
proof -
  consider "key_type (info c) = kDescriptorKeyPublic" | "key_type (info c) = kDescriptorKeySchnorr"
    | "key_type (info c) = kDescriptorKeyBip32" | "key_type (info c) = kDescriptorKeyBip32Priv"
    | "key_type (info c) = kDescriptorKeyNull"
    by (cases "key_type (info c)") auto
  then show ?thesis
  proof cases
    case 1
    then show ?thesis
      by (simp add: fixed_key_def GetKeyReferences_def Let_def split: sum.splits)
  next
    case 2
    then show ?thesis
      by (simp add: fixed_key_def GetKeyReferences_def Let_def split: sum.splits)
  next
    case 3
    then show ?thesis using assms
      by (simp add: fixed_key_def GetKeyReferences_def Let_def split: sum.splits prod.splits)
  next
    case 4
    then show ?thesis using assms
      by (simp add: fixed_key_def GetKeyReferences_def Let_def split: sum.splits prod.splits)
  next
    case 5
    then show ?thesis
      by (simp add: fixed_key_def GetKeyReferences_def Let_def)
  qed
qed

lemma multisig_keys_fixed_aux:
  assumes "\<forall>c \<in> set cs. need_arg_num (info c) = 0"
  shows "foldM (\<lambda>c (keys, a). case GetKeyReferences X c a of
              Inl e \<Rightarrow> Inl e | Inr (key_ref, a') \<Rightarrow> Inr (keys @ [key_ref], a'))
     cs (ks, a0) = (case mapM (fixed_key X) cs of Inl e \<Rightarrow> Inl e | Inr rs \<Rightarrow> Inr (ks @ rs, a0))"
  using assms
proof (induction cs arbitrary: ks)
  case Nil
  then show ?case by simp
next
  case (Cons c cs)
  then have c: "GetKeyReferences X c a0 = (case fixed_key X c of Inl e \<Rightarrow> Inl e | Inr r \<Rightarrow> Inr (r, a0))"
    by (intro GetKeyReferences_fixed) simp
  show ?case
  proof (cases "fixed_key X c")
    case (Inl e)
    then show ?thesis using c by simp
  next
    case (Inr r)
    then show ?thesis using c Cons.IH [of "ks @ [r]"] Cons.prems
      by (simp split: sum.splits)
  qed
qed

lemma multisig_keys_fixed:
  assumes "\<forall>c \<in> set cs. need_arg_num (info c) = 0"
  shows "multisig_keys X cs a0 = (case mapM (fixed_key X) cs of Inl e \<Rightarrow> Inl e | Inr rs \<Rightarrow> Inr (rs, a0))"
  unfolding multisig_keys_def using multisig_keys_fixed_aux [OF assms, of X "[]" a0]
  by (cases "mapM (fixed_key X) cs") simp_all

lemma mapM_Inr_iff:
  "mapM f xs = Inr ys \<longleftrightarrow> (\<forall>x \<in> set xs. \<exists>y. f x = Inr y) \<and> ys = map (\<lambda>x. projr (f x)) xs"
proof (induction xs arbitrary: ys)
  case Nil
  then show ?case by auto
next
  case (Cons x xs)
  show ?case
  proof (cases "f x")
    case (Inl e)
    then show ?thesis by auto
  next
    case (Inr y)
    then show ?thesis using Cons.IH
      by (cases "mapM f xs") (auto split: sum.splits)
  qed
qed

lemma mapM_perm:
  assumes "mset xs' = mset xs" "mapM f xs = Inr ys"
  shows "\<exists>ys'. mapM f xs' = Inr ys' \<and> mset (map g ys') = mset (map g ys)"
proof -
  have set: "set xs' = set xs" using assms(1) by (rule mset_eq_setD)
  have ys: "\<forall>x \<in> set xs. \<exists>y. f x = Inr y" "ys = map (\<lambda>x. projr (f x)) xs"
    using assms(2) mapM_Inr_iff [of f xs ys] by auto
  have "mapM f xs' = Inr (map (\<lambda>x. projr (f x)) xs')"
    using ys(1) set mapM_Inr_iff [of f xs'] by auto
  moreover have "mset (map g (map (\<lambda>x. projr (f x)) xs')) = mset (map g ys)"
    unfolding ys(2) map_map using assms(1) by (metis mset_map)
  ultimately show ?thesis by blast
qed

lemma GetReferences_multisig_eq:
  assumes nt: "node_type (info nd) = kDescriptorTypeScript"
    and st: "script_type (info nd) = kDescriptorScriptMulti \<or> script_type (info nd) = kDescriptorScriptSortedMulti"
    and cs: "child_node nd = c0 # cs"
  shows "GetReferences X nd args parent =
     (case multisig_keys X cs (entry_arguments nd args) of
        Inl e \<Rightarrow> Inl e
      | Inr (keys, a1) \<Rightarrow>
          (case CreateMultisigRedeemScript X (number (info c0))
                  (if script_type (info nd) = kDescriptorScriptSortedMulti
                   then std_sort (Pubkey_IsLarge X) (map kr_pubkey keys) else map kr_pubkey keys)
                  (case parent of None \<Rightarrow> False
                   | Some p \<Rightarrow> script_type (info p) = kDescriptorScriptWsh) of
             Inl e \<Rightarrow> Inl e
           | Inr locking_script \<Rightarrow>
               Inr ([Reference_keys locking_script (script_type (info nd)) keys (number (info c0))], a1)))"
proof (cases "multisig_keys X cs (entry_arguments nd args)")
  case (Inl e)
  then show ?thesis using nt st cs
    by (subst GetReferences.simps) (auto simp: Let_def)
next
  case (Inr p)
  obtain keys a where p: "p = (keys, a)" by (cases p)
  show ?thesis using nt st cs Inr p
    by (subst GetReferences.simps) (auto simp: Let_def split: sum.splits)
qed

lemma multisig_eval:
  assumes nt: "node_type (info nd) = kDescriptorTypeScript"
    and st: "script_type (info nd) = kDescriptorScriptMulti \<or> script_type (info nd) = kDescriptorScriptSortedMulti"
    and cs: "child_node nd = c0 # cs"
  shows "GetReferences X nd args parent = Inr (refs, a) \<longleftrightarrow>
     (\<exists>keys. multisig_keys X cs (entry_arguments nd args) = Inr (keys, a) \<and>
        \<not> CreateMultisigRedeemScript_throws X (number (info c0))
             (multisig_pubkeys X (script_type (info nd)) keys)
             (case parent of None \<Rightarrow> False
              | Some p \<Rightarrow> script_type (info p) = kDescriptorScriptWsh) \<and>
        refs = [Reference_keys
                  ([Num (uint (number (info c0)))] @
                   map Data (multisig_pubkeys X (script_type (info nd)) keys) @
                   [Num (int (length (multisig_pubkeys X (script_type (info nd)) keys))),
                    Op OP_CHECKMULTISIG])
                  (script_type (info nd)) keys (number (info c0))])"
  unfolding GetReferences_multisig_eq [OF nt st cs] multisig_pubkeys_def
    CreateMultisigRedeemScript_def
  by (cases "multisig_keys X cs (entry_arguments nd args)") (auto split: prod.splits)

lemma multisig_script_inj2:
  "([[Num k] @ map Data pks2 @ [Num (int (length pks2)), Op OP_CHECKMULTISIG]] =
    [[Num k] @ map Data pks1 @ [Num (int (length pks1)), Op OP_CHECKMULTISIG]]) \<longleftrightarrow>
   pks2 = pks1"
proof
  assume "[[Num k] @ map Data pks2 @ [Num (int (length pks2)), Op OP_CHECKMULTISIG]] =
    [[Num k] @ map Data pks1 @ [Num (int (length pks1)), Op OP_CHECKMULTISIG]]"
  then have e: "map Data pks2 @ [Num (int (length pks2)), Op OP_CHECKMULTISIG] =
      map Data pks1 @ [Num (int (length pks1)), Op OP_CHECKMULTISIG]"
    by simp
  then have "length (map Data pks2 @ [Num (int (length pks2)), Op OP_CHECKMULTISIG]) =
      length (map Data pks1 @ [Num (int (length pks1)), Op OP_CHECKMULTISIG])"
    by (rule arg_cong)
  then have "length pks2 = length pks1" by simp
  with e have "map Data pks2 = map Data pks1" by simp
  moreover have "inj Data" by (simp add: inj_on_def)
  ultimately show "pks2 = pks1" by (simp add: inj_map_eq_map)
next
  assume "pks2 = pks1"
  then show "[[Num k] @ map Data pks2 @ [Num (int (length pks2)), Op OP_CHECKMULTISIG]] =
    [[Num k] @ map Data pks1 @ [Num (int (length pks1)), Op OP_CHECKMULTISIG]]"
    by simp
qed

lemma GetLockingScript_keys: "GetLockingScript (Reference_keys s st keys k) = s"
  by (simp add: GetLockingScript_def Reference_keys_def)

lemma entry_arguments_depth:
  "depth (info n2) = depth (info n1) \<Longrightarrow> entry_arguments n2 args = entry_arguments n1 args"
  by (cases args) (simp_all add: entry_arguments_def)

text \<open>
  \<^bold>\<open>C6.\<close> Two script nodes \<open>nd1\<close> and \<open>nd2\<close> of the same script type, \<open>sortedmulti\<close> or \<open>multi\<close>,
  at the same depth, under parents that are both \<open>wsh\<close> or both not, with first children
  of the same number and the key children \<open>cs1\<close> and \<open>cs2\<close>; all other members of the
  two nodes are free (a parser leaves the text of the last key in \<open>value_\<close>). The first
  node evaluates.
  (1) For \<open>sortedmulti\<close>, when no key of \<open>cs1\<close> reads an argument and \<open>cs2\<close> is a
  permutation of \<open>cs1\<close>, the second node evaluates with the same arguments, and to the
  same locking scripts.
  (2) For \<open>sortedmulti\<close>, two evaluations that derive the same public keys, each as many
  times, give the same locking scripts, whatever the arguments.
  (3) For \<open>multi\<close>, two evaluations give the same locking scripts exactly when they derive
  the same list of public keys.
  The order of \<^verbatim>\<open>Pubkey::IsLarge\<close> is the one the specification gives.
\<close>

theorem multisig_permutation:
  assumes nt1: "node_type (info nd1) = kDescriptorTypeScript"
    and nt2: "node_type (info nd2) = kDescriptorTypeScript"
    and st2: "script_type (info nd2) = script_type (info nd1)"
    and dp: "depth (info nd2) = depth (info nd1)"
    and ch1: "child_node nd1 = c1 # cs1"
    and ch2: "child_node nd2 = c2 # cs2"
    and num: "number (info c2) = number (info c1)"
    and hw: "(case parent2 of None \<Rightarrow> False
              | Some p \<Rightarrow> script_type (info p) = kDescriptorScriptWsh) =
             (case parent1 of None \<Rightarrow> False
              | Some p \<Rightarrow> script_type (info p) = kDescriptorScriptWsh)"
    and ok1: "GetReferences X nd1 args1 parent1 = Inr (refs1, a1)"
    and large: "Pubkey_IsLarge X = IsLarge_spec"
  shows "(script_type (info nd1) = kDescriptorScriptSortedMulti \<and>
          (\<forall>c \<in> set cs1. need_arg_num (info c) = 0) \<and> mset cs2 = mset cs1 \<longrightarrow>
          (\<exists>refs2. GetReferences X nd2 args1 parent2 = Inr (refs2, a1) \<and>
                   map GetLockingScript refs2 = map GetLockingScript refs1)) \<and>
         (\<forall>keys1 keys2 b1 b2 refs2 a2.
            multisig_keys X cs1 (entry_arguments nd1 args1) = Inr (keys1, b1) \<and>
            multisig_keys X cs2 (entry_arguments nd2 args2) = Inr (keys2, b2) \<and>
            GetReferences X nd2 args2 parent2 = Inr (refs2, a2) \<longrightarrow>
            (script_type (info nd1) = kDescriptorScriptSortedMulti \<and>
             mset (map kr_pubkey keys2) = mset (map kr_pubkey keys1) \<longrightarrow>
               map GetLockingScript refs2 = map GetLockingScript refs1) \<and>
            (script_type (info nd1) = kDescriptorScriptMulti \<longrightarrow>
               (map GetLockingScript refs2 = map GetLockingScript refs1 \<longleftrightarrow>
                map kr_pubkey keys2 = map kr_pubkey keys1)))"
proof (intro conjI allI impI; (elim conjE)?)
  let ?hw = "case parent1 of None \<Rightarrow> False | Some p \<Rightarrow> script_type (info p) = kDescriptorScriptWsh"
  let ?s = "script_type (info nd1)"
  assume st: "script_type (info nd1) = kDescriptorScriptSortedMulti"
    and fixed: "\<forall>c \<in> set cs1. need_arg_num (info c) = 0"
    and perm: "mset cs2 = mset cs1"
  have st': "?s = kDescriptorScriptMulti \<or> ?s = kDescriptorScriptSortedMulti"
    "script_type (info nd2) = kDescriptorScriptMulti \<or> script_type (info nd2) = kDescriptorScriptSortedMulti"
    using st st2 by simp_all
  have fixed2: "\<forall>c \<in> set cs2. need_arg_num (info c) = 0"
    using fixed mset_eq_setD [OF perm] by simp
  from ok1 [unfolded multisig_eval [OF nt1 st'(1) ch1]]
  obtain keys1 where k1: "multisig_keys X cs1 (entry_arguments nd1 args1) = Inr (keys1, a1)"
    and nothrow: "\<not> CreateMultisigRedeemScript_throws X (number (info c1))
             (multisig_pubkeys X ?s keys1) ?hw"
    and r1: "refs1 = [Reference_keys
                  ([Num (uint (number (info c1)))] @
                   map Data (multisig_pubkeys X ?s keys1) @
                   [Num (int (length (multisig_pubkeys X ?s keys1))), Op OP_CHECKMULTISIG])
                  ?s keys1 (number (info c1))]"
    by (elim exE conjE)
  have m1: "mapM (fixed_key X) cs1 = Inr keys1" and a1: "a1 = entry_arguments nd1 args1"
    using k1 unfolding multisig_keys_fixed [OF fixed]
    by (cases "mapM (fixed_key X) cs1"; simp)+
  obtain keys2 where m2: "mapM (fixed_key X) cs2 = Inr keys2"
    and ms: "mset (map kr_pubkey keys2) = mset (map kr_pubkey keys1)"
    using mapM_perm [OF perm m1, of kr_pubkey] by blast
  have k2: "multisig_keys X cs2 (entry_arguments nd2 args1) = Inr (keys2, a1)"
    unfolding multisig_keys_fixed [OF fixed2] using m2 a1 entry_arguments_depth [OF dp, of args1]
    by simp
  have pk: "multisig_pubkeys X ?s keys2 = multisig_pubkeys X ?s keys1"
    using st large std_sort_perm [OF ms] by (simp add: multisig_pubkeys_def)
  have "GetReferences X nd2 args1 parent2 =
          Inr ([Reference_keys
                  ([Num (uint (number (info c1)))] @
                   map Data (multisig_pubkeys X ?s keys1) @
                   [Num (int (length (multisig_pubkeys X ?s keys1))), Op OP_CHECKMULTISIG])
                  ?s keys2 (number (info c1))], a1)"
    unfolding multisig_eval [OF nt2 st'(2) ch2] st2 num hw pk
    using k2 nothrow by (intro exI [of _ keys2] conjI) (simp_all add: pk)
  then show "\<exists>refs2. GetReferences X nd2 args1 parent2 = Inr (refs2, a1) \<and>
                   map GetLockingScript refs2 = map GetLockingScript refs1"
    using r1 by (simp add: GetLockingScript_keys)
next
  fix keys1 keys2 b1 b2 refs2 a2
  let ?s = "script_type (info nd1)"
  assume k1: "multisig_keys X cs1 (entry_arguments nd1 args1) = Inr (keys1, b1)"
    and k2: "multisig_keys X cs2 (entry_arguments nd2 args2) = Inr (keys2, b2)"
    and ok2: "GetReferences X nd2 args2 parent2 = Inr (refs2, a2)"
    and st: "script_type (info nd1) = kDescriptorScriptSortedMulti"
    and ms: "mset (map kr_pubkey keys2) = mset (map kr_pubkey keys1)"
  have st': "?s = kDescriptorScriptMulti \<or> ?s = kDescriptorScriptSortedMulti"
    "script_type (info nd2) = kDescriptorScriptMulti \<or> script_type (info nd2) = kDescriptorScriptSortedMulti"
    using st st2 by simp_all
  have pk: "multisig_pubkeys X ?s keys2 = multisig_pubkeys X ?s keys1"
    using st large std_sort_perm [OF ms] by (simp add: multisig_pubkeys_def)
  have 1: "map GetLockingScript refs1 = [[Num (uint (number (info c1)))] @
                   map Data (multisig_pubkeys X ?s keys1) @
                   [Num (int (length (multisig_pubkeys X ?s keys1))), Op OP_CHECKMULTISIG]]"
    using ok1 [unfolded multisig_eval [OF nt1 st'(1) ch1]] k1
    by (auto simp: GetLockingScript_keys)
  have 2: "map GetLockingScript refs2 = [[Num (uint (number (info c1)))] @
                   map Data (multisig_pubkeys X ?s keys2) @
                   [Num (int (length (multisig_pubkeys X ?s keys2))), Op OP_CHECKMULTISIG]]"
    using ok2 [unfolded multisig_eval [OF nt2 st'(2) ch2] st2 num] k2
    by (auto simp: GetLockingScript_keys)
  show "map GetLockingScript refs2 = map GetLockingScript refs1"
    unfolding 1 2 pk ..
next
  fix keys1 keys2 b1 b2 refs2 a2
  let ?s = "script_type (info nd1)"
  assume k1: "multisig_keys X cs1 (entry_arguments nd1 args1) = Inr (keys1, b1)"
    and k2: "multisig_keys X cs2 (entry_arguments nd2 args2) = Inr (keys2, b2)"
    and ok2: "GetReferences X nd2 args2 parent2 = Inr (refs2, a2)"
    and st: "script_type (info nd1) = kDescriptorScriptMulti"
  have st': "?s = kDescriptorScriptMulti \<or> ?s = kDescriptorScriptSortedMulti"
    "script_type (info nd2) = kDescriptorScriptMulti \<or> script_type (info nd2) = kDescriptorScriptSortedMulti"
    using st st2 by simp_all
  have pk: "multisig_pubkeys X ?s keys1 = map kr_pubkey keys1"
    "multisig_pubkeys X ?s keys2 = map kr_pubkey keys2"
    using st by (simp_all add: multisig_pubkeys_def)
  have 1: "map GetLockingScript refs1 = [[Num (uint (number (info c1)))] @
                   map Data (map kr_pubkey keys1) @
                   [Num (int (length (map kr_pubkey keys1))), Op OP_CHECKMULTISIG]]"
    using ok1 [unfolded multisig_eval [OF nt1 st'(1) ch1]] k1
    by (auto simp: GetLockingScript_keys pk)
  have 2: "map GetLockingScript refs2 = [[Num (uint (number (info c1)))] @
                   map Data (map kr_pubkey keys2) @
                   [Num (int (length (map kr_pubkey keys2))), Op OP_CHECKMULTISIG]]"
    using ok2 [unfolded multisig_eval [OF nt2 st'(2) ch2] st2 num] k2
    by (auto simp: GetLockingScript_keys pk)
  show "map GetLockingScript refs2 = map GetLockingScript refs1 \<longleftrightarrow>
        map kr_pubkey keys2 = map kr_pubkey keys1"
    unfolding 1 2 by (rule multisig_script_inj2)
qed

lemma ex_parsed_sortedmulti:
  "(case (Parse X0 ''sortedmulti(1,xpubA,xpubB)'', Parse X0 ''sortedmulti(1,xpubB,xpubA)'') of
      (Inr n1, Inr n2) \<Rightarrow>
        node_type (info n1) = kDescriptorTypeScript \<and>
        node_type (info n2) = kDescriptorTypeScript \<and>
        script_type (info n1) = kDescriptorScriptSortedMulti \<and>
        script_type (info n2) = kDescriptorScriptSortedMulti \<and>
        depth (info n2) = depth (info n1) \<and>
        val (info n2) \<noteq> val (info n1) \<and>
        (case (child_node n1, child_node n2) of
           (c1 # cs1, c2 # cs2) \<Rightarrow>
             number (info c2) = number (info c1) \<and> cs2 = rev cs1 \<and>
             list_all (\<lambda>c. need_arg_num (info c) = 0) cs1
         | _ \<Rightarrow> False) \<and>
        (case GetReferences X0 n1 (Some []) None of Inr p \<Rightarrow> True | Inl e \<Rightarrow> False)
    | _ \<Rightarrow> False)"
  by code_simp

lemma ex_parsed_multi:
  "(case (Parse X0 ''multi(1,xpubA,xpubB)'', Parse X0 ''multi(1,xpubB,xpubA)'') of
      (Inr n1, Inr n2) \<Rightarrow>
        node_type (info n1) = kDescriptorTypeScript \<and>
        node_type (info n2) = kDescriptorTypeScript \<and>
        script_type (info n1) = kDescriptorScriptMulti \<and>
        script_type (info n2) = kDescriptorScriptMulti \<and>
        depth (info n2) = depth (info n1) \<and>
        (case (child_node n1, child_node n2) of
           (c1 # cs1, c2 # cs2) \<Rightarrow>
             number (info c2) = number (info c1) \<and>
             (case (multisig_keys X0 cs1 (entry_arguments n1 (Some [])),
                    multisig_keys X0 cs2 (entry_arguments n2 (Some []))) of
                (Inr (keys1, b1), Inr (keys2, b2)) \<Rightarrow> map kr_pubkey keys2 \<noteq> map kr_pubkey keys1
              | _ \<Rightarrow> False)
         | _ \<Rightarrow> False) \<and>
        (case GetReferences X0 n1 (Some []) None of Inr p \<Rightarrow> True | Inl e \<Rightarrow> False) \<and>
        (case GetReferences X0 n2 (Some []) None of Inr p \<Rightarrow> True | Inl e \<Rightarrow> False)
    | _ \<Rightarrow> False)"
  by code_simp

theorem multisig_permutation_witness:
  "(\<exists>n1 n2 refs1 refs2 a.
      Parse X0 ''sortedmulti(1,xpubA,xpubB)'' = Inr n1 \<and>
      Parse X0 ''sortedmulti(1,xpubB,xpubA)'' = Inr n2 \<and>
      info n2 \<noteq> info n1 \<and>
      GetReferences X0 n1 (Some []) None = Inr (refs1, a) \<and>
      GetReferences X0 n2 (Some []) None = Inr (refs2, a) \<and>
      map GetLockingScript refs2 = map GetLockingScript refs1) \<and>
   (\<exists>n1 n2 refs1 refs2 a1 a2.
      Parse X0 ''multi(1,xpubA,xpubB)'' = Inr n1 \<and>
      Parse X0 ''multi(1,xpubB,xpubA)'' = Inr n2 \<and>
      GetReferences X0 n1 (Some []) None = Inr (refs1, a1) \<and>
      GetReferences X0 n2 (Some []) None = Inr (refs2, a2) \<and>
      map GetLockingScript refs2 \<noteq> map GetLockingScript refs1)"
proof (rule conjI)
  have large: "Pubkey_IsLarge X0 = IsLarge_spec" by (simp add: X0_def)
  have hw: "(case None :: node option of None \<Rightarrow> False
              | Some p \<Rightarrow> script_type (info p) = kDescriptorScriptWsh) =
            (case None :: node option of None \<Rightarrow> False
              | Some p \<Rightarrow> script_type (info p) = kDescriptorScriptWsh)" ..
  obtain n1 n2 where p: "Parse X0 ''sortedmulti(1,xpubA,xpubB)'' = Inr n1"
      "Parse X0 ''sortedmulti(1,xpubB,xpubA)'' = Inr n2"
    by (cases "Parse X0 ''sortedmulti(1,xpubA,xpubB)''";
        cases "Parse X0 ''sortedmulti(1,xpubB,xpubA)''")
      (use ex_parsed_sortedmulti in simp_all)
  note r = ex_parsed_sortedmulti [unfolded p sum.case prod.case]
  have nt: "node_type (info n1) = kDescriptorTypeScript" "node_type (info n2) = kDescriptorTypeScript"
    and st: "script_type (info n1) = kDescriptorScriptSortedMulti"
      "script_type (info n2) = kDescriptorScriptSortedMulti"
    and dp: "depth (info n2) = depth (info n1)"
    and v: "val (info n2) \<noteq> val (info n1)"
    using r by blast+
  obtain c1 cs1 c2 cs2 where ch: "child_node n1 = c1 # cs1" "child_node n2 = c2 # cs2"
    using r by (cases "child_node n1"; cases "child_node n2") simp_all
  note r2 = r [unfolded ch list.case prod.case]
  have num: "number (info c2) = number (info c1)"
    and perm: "cs2 = rev cs1"
    and fixed: "list_all (\<lambda>c. need_arg_num (info c) = 0) cs1"
    using r2 by blast+
  obtain refs1 a where ok1: "GetReferences X0 n1 (Some []) None = Inr (refs1, a)"
    using r by (cases "GetReferences X0 n1 (Some []) None") (auto simp del: GetReferences.simps)
  have st2: "script_type (info n2) = script_type (info n1)" using st by simp
  have f: "\<forall>c \<in> set cs1. need_arg_num (info c) = 0" using fixed by (simp add: list_all_iff)
  have m: "mset cs2 = mset cs1" using perm by simp
  from multisig_permutation [OF nt st2 dp ch num hw ok1 large, THEN conjunct1, rule_format,
      OF conjI [OF st(1) conjI [OF f m]]]
  obtain refs2 where "GetReferences X0 n2 (Some []) None = Inr (refs2, a)"
    "map GetLockingScript refs2 = map GetLockingScript refs1"
    by (elim exE conjE)
  moreover have "info n2 \<noteq> info n1" using v by auto
  ultimately show "\<exists>n1 n2 refs1 refs2 a.
      Parse X0 ''sortedmulti(1,xpubA,xpubB)'' = Inr n1 \<and>
      Parse X0 ''sortedmulti(1,xpubB,xpubA)'' = Inr n2 \<and>
      info n2 \<noteq> info n1 \<and>
      GetReferences X0 n1 (Some []) None = Inr (refs1, a) \<and>
      GetReferences X0 n2 (Some []) None = Inr (refs2, a) \<and>
      map GetLockingScript refs2 = map GetLockingScript refs1"
    using p ok1
    by (intro exI [of _ n1] exI [of _ n2] exI [of _ refs1] exI [of _ refs2] exI [of _ a] conjI)
next
  have large: "Pubkey_IsLarge X0 = IsLarge_spec" by (simp add: X0_def)
  have hw: "(case None :: node option of None \<Rightarrow> False
              | Some p \<Rightarrow> script_type (info p) = kDescriptorScriptWsh) =
            (case None :: node option of None \<Rightarrow> False
              | Some p \<Rightarrow> script_type (info p) = kDescriptorScriptWsh)" ..
  obtain n1 n2 where p: "Parse X0 ''multi(1,xpubA,xpubB)'' = Inr n1"
      "Parse X0 ''multi(1,xpubB,xpubA)'' = Inr n2"
    by (cases "Parse X0 ''multi(1,xpubA,xpubB)''"; cases "Parse X0 ''multi(1,xpubB,xpubA)''")
      (use ex_parsed_multi in simp_all)
  note r = ex_parsed_multi [unfolded p sum.case prod.case]
  have nt: "node_type (info n1) = kDescriptorTypeScript" "node_type (info n2) = kDescriptorTypeScript"
    and st: "script_type (info n1) = kDescriptorScriptMulti"
      "script_type (info n2) = kDescriptorScriptMulti"
    and dp: "depth (info n2) = depth (info n1)"
    using r by blast+
  obtain c1 cs1 c2 cs2 where ch: "child_node n1 = c1 # cs1" "child_node n2 = c2 # cs2"
    using r by (cases "child_node n1"; cases "child_node n2") simp_all
  note r2 = r [unfolded ch list.case prod.case]
  have num: "number (info c2) = number (info c1)" using r2 by blast
  obtain keys1 b1 keys2 b2 where
    k: "multisig_keys X0 cs1 (entry_arguments n1 (Some [])) = Inr (keys1, b1)"
      "multisig_keys X0 cs2 (entry_arguments n2 (Some [])) = Inr (keys2, b2)"
    using r2
    by (cases "multisig_keys X0 cs1 (entry_arguments n1 (Some []))";
        cases "multisig_keys X0 cs2 (entry_arguments n2 (Some []))") auto
  have k3: "map kr_pubkey keys2 \<noteq> map kr_pubkey keys1"
    using r2 [unfolded k sum.case prod.case] by blast
  obtain refs1 a1 where ok1: "GetReferences X0 n1 (Some []) None = Inr (refs1, a1)"
    using r by (cases "GetReferences X0 n1 (Some []) None") (auto simp del: GetReferences.simps)
  obtain refs2 a2 where ok2: "GetReferences X0 n2 (Some []) None = Inr (refs2, a2)"
    using r by (cases "GetReferences X0 n2 (Some []) None") (auto simp del: GetReferences.simps)
  have st2: "script_type (info n2) = script_type (info n1)" using st by simp
  have "map GetLockingScript refs2 \<noteq> map GetLockingScript refs1"
    using multisig_permutation [OF nt st2 dp ch num hw ok1 large, THEN conjunct2, rule_format,
        of keys1 b1 "Some []" keys2 b2 refs2 a2] k k3 ok2 st(1) by blast
  then show "\<exists>n1 n2 refs1 refs2 a1 a2.
      Parse X0 ''multi(1,xpubA,xpubB)'' = Inr n1 \<and>
      Parse X0 ''multi(1,xpubB,xpubA)'' = Inr n2 \<and>
      GetReferences X0 n1 (Some []) None = Inr (refs1, a1) \<and>
      GetReferences X0 n2 (Some []) None = Inr (refs2, a2) \<and>
      map GetLockingScript refs2 \<noteq> map GetLockingScript refs1"
    using p ok1 ok2
    by (intro exI [of _ n1] exI [of _ n2] exI [of _ refs1] exI [of _ refs2]
          exI [of _ a1] exI [of _ a2] conjI)
qed

text \<open>
  With wildcards the keys read their arguments in the order of the descriptor: the
  descriptors \<open>sortedmulti(1,xpubA/*,xpubB/*)\<close> and \<open>sortedmulti(1,xpubB/*,xpubA/*)\<close> both
  parse and both evaluate with the arguments "3" and "5", the first to the keys
  \<open>xpubA/3\<close> and \<open>xpubB/5\<close>, the second to \<open>xpubB/3\<close> and \<open>xpubA/5\<close>, and their locking
  scripts differ.
\<close>

theorem sortedmulti_wildcard_counterexample:
  "(case (Parse X0 ''sortedmulti(1,xpubA/*,xpubB/*)'', Parse X0 ''sortedmulti(1,xpubB/*,xpubA/*)'') of
      (Inr n1, Inr n2) \<Rightarrow>
        (case (Descriptor_GetLockingScript X0 n1 [''3'', ''5''],
               Descriptor_GetLockingScript X0 n2 [''3'', ''5'']) of
           (Inr s1, Inr s2) \<Rightarrow> s1 \<noteq> s2
         | _ \<Rightarrow> False)
    | _ \<Rightarrow> False)"
  by code_simp

lemma node_sel [simp]:
  "info (upd f n) = f (info n)" "child_node (upd f n) = child_node n"
  "info (push_child c n) = info n" "child_node (push_child c n) = child_node n @ [c]"
  by (simp_all add: upd_def push_child_def)

lemma net_Nil [simp]: "net [] = 0"
  by (simp add: net_def)




lemma net_bound: "\<bar>net s\<bar> \<le> int (length s)"
proof -
  have "count_list s CHR ''('' \<le> length s" "count_list s CHR '')'' \<le> length s"
    by (rule count_le_length)+
  then show ?thesis unfolding net_def by linarith
qed

lemma net_take_bound: "\<bar>net (take k d)\<bar> \<le> int (length d)"
  using net_bound [of "take k d"] by simp




























end
